theory Spec2Isabelle
  imports Main "HOL-Library.AList"
begin

section \<open>Go strings\<close>

text \<open>
  A Go string is a sequence of bytes, here a \<^typ>\<open>string\<close>. The helpers below are the
  functions of Go's \<^verbatim>\<open>strings\<close> package that the generator calls, on bytes.
\<close>

definition HasPrefix :: "string \<Rightarrow> string \<Rightarrow> bool" where
  "HasPrefix s p = (take (length p) s = p)"

definition HasSuffix :: "string \<Rightarrow> string \<Rightarrow> bool" where
  "HasSuffix s x = (length x \<le> length s \<and> drop (length s - length x) s = x)"

definition TrimSuffix :: "string \<Rightarrow> string \<Rightarrow> string" where
  "TrimSuffix s x = (if HasSuffix s x then take (length s - length x) s else s)"

fun Contains :: "string \<Rightarrow> string \<Rightarrow> bool" where
  "Contains [] sub = (sub = [])"
| "Contains (c # cs) sub = (HasPrefix (c # cs) sub \<or> Contains cs sub)"

text \<open>\<^verbatim>\<open>strings.Split(s, sep)\<close> for a separator of one byte: never an empty list.\<close>

fun Split :: "string \<Rightarrow> char \<Rightarrow> string list" where
  "Split [] sep = [[]]"
| "Split (c # cs) sep =
     (if c = sep then [] # Split cs sep
      else (case Split cs sep of [] \<Rightarrow> [[c]] | p # ps \<Rightarrow> (c # p) # ps))"

text \<open>\<^verbatim>\<open>strings.Trim(s, cutset)\<close> for a cutset of one byte.\<close>

definition Trim :: "string \<Rightarrow> char \<Rightarrow> string" where
  "Trim s c = rev (dropWhile (\<lambda>x. x = c) (rev (dropWhile (\<lambda>x. x = c) s)))"

definition isASCII :: "string \<Rightarrow> bool" where
  "isASCII s = list_all (\<lambda>c. (of_char c :: nat) < 128) s"

definition asciiSpace :: "char \<Rightarrow> bool" where
  "asciiSpace c = (c \<in> set [CHR 0x09, CHR 0x0A, CHR 0x0B, CHR 0x0C, CHR 0x0D, CHR '' ''])"

definition asciiUpper :: "char \<Rightarrow> bool" where
  "asciiUpper c = ((65::nat) \<le> of_char c \<and> (of_char c :: nat) \<le> 90)"

text \<open>An upper-case ASCII letter and its lower-case letter differ in bit 5 (that is, by 32).\<close>

definition asciiLower :: "char \<Rightarrow> char" where
  "asciiLower c =
     (if asciiUpper c
      then Char (digit0 c) (digit1 c) (digit2 c) (digit3 c) (digit4 c) True (digit6 c) (digit7 c)
      else c)"

text \<open>
  The Unicode-aware library functions agree with their ASCII versions on ASCII input. What
  they do on other input, what \<^verbatim>\<open>filepath.Abs\<close> returns and the order in which a Go map
  is iterated belong to the Go runtime, not to the generator: they are the fields of an
  environment that every definition takes and every theorem leaves arbitrary.
\<close>

record GoEnv =
  toLowerU :: "string \<Rightarrow> string"
  equalFoldU :: "string \<Rightarrow> string \<Rightarrow> bool"
  trimSpaceU :: "string \<Rightarrow> string"
  isUpperU :: "string \<Rightarrow> bool"
  unquoteU :: "string \<Rightarrow> string option"
  filepathAbs :: "string \<Rightarrow> string"
  mapOrder :: "(string \<times> string) list \<Rightarrow> (string \<times> string) list"

definition ToLower :: "GoEnv \<Rightarrow> string \<Rightarrow> string" where
  "ToLower E s = (if isASCII s then map asciiLower s else toLowerU E s)"

definition EqualFold :: "GoEnv \<Rightarrow> string \<Rightarrow> string \<Rightarrow> bool" where
  "EqualFold E s t =
     (if isASCII s \<and> isASCII t then map asciiLower s = map asciiLower t else equalFoldU E s t)"

definition TrimSpace :: "GoEnv \<Rightarrow> string \<Rightarrow> string" where
  "TrimSpace E s =
     (if isASCII s then rev (dropWhile asciiSpace (rev (dropWhile asciiSpace s)))
      else trimSpaceU E s)"

section \<open>Options\<close>

record TagFilter =
  Key :: string
  Value :: string

record Options =
  InDir :: string
  OutDir :: string
  OutFile :: string
  Suffix :: string
  PatchSuffix :: string
  KeepORMTags :: bool
  FlattenEmbedded :: bool
  IncludeEmbedded :: bool
  ExcludeDeprecated :: bool
  ExcludeTypes :: "string list"
  ExcludeByTags :: "TagFilter list"

definition NewOptions :: Options where
  "NewOptions = \<lparr>InDir = ''.'', OutDir = ''api'', OutFile = ''api_gen.go'', Suffix = '''',
     PatchSuffix = ''Patch'', KeepORMTags = False, FlattenEmbedded = False,
     IncludeEmbedded = True, ExcludeDeprecated = False, ExcludeTypes = [],
     ExcludeByTags = []\<rparr>"

text \<open>A Go panic ends the run: it is the left summand of a result.\<close>

datatype panic = IndexOutOfRange | PanicMsg string

text \<open>
  The first loop of \<^verbatim>\<open>Options.Normalize\<close>: each \<^verbatim>\<open>key:value\<close> string is split at its
  colons and \<^verbatim>\<open>sp[0]\<close>, \<^verbatim>\<open>sp[1]\<close> are read; a string without a colon has no \<^verbatim>\<open>sp[1]\<close>.
\<close>

fun appendTagFilters :: "TagFilter list \<Rightarrow> string list \<Rightarrow> panic + TagFilter list" where
  "appendTagFilters acc [] = Inr acc"
| "appendTagFilters acc (s # ss) =
     (case Split s CHR '':'' of
        k # v # _ \<Rightarrow> appendTagFilters (acc @ [\<lparr>Key = k, Value = v\<rparr>]) ss
      | _ \<Rightarrow> Inl IndexOutOfRange)"

definition Normalize :: "GoEnv \<Rightarrow> Options \<Rightarrow> string list \<Rightarrow> panic + Options" where
  "Normalize E o0 excludeByTagsStrings =
     (case appendTagFilters (ExcludeByTags o0) excludeByTagsStrings of
        Inl e \<Rightarrow> Inl e
      | Inr fs \<Rightarrow>
          let o1 = o0\<lparr>ExcludeByTags := fs\<rparr> in
          if FlattenEmbedded o1 = IncludeEmbedded o1
          then Inl (PanicMsg ''FlattenEmbedded and IncludeEmbedded are mutually exclusive'')
          else
            let o2 = (if Contains (InDir o1) ''.'' then o1\<lparr>InDir := filepathAbs E (InDir o1)\<rparr> else o1);
                o3 = (if length (OutDir o2) = 0 then o2\<lparr>OutDir := ''dto''\<rparr> else o2);
                o4 = (if Contains (OutDir o3) ''.'' then o3\<lparr>OutDir := filepathAbs E (OutDir o3)\<rparr> else o3);
                o5 = (if length (OutFile o4) = 0 then o4\<lparr>OutFile := ''api_gen.go''\<rparr> else o4);
                o6 = (if PatchSuffix o5 = '''' then o5\<lparr>PatchSuffix := ''Patch''\<rparr> else o5)
            in Inr o6)"


text \<open>A sample environment, for evaluating the definitions on concrete input.\<close>

definition asciiEnv :: GoEnv where
  "asciiEnv = \<lparr>toLowerU = id, equalFoldU = (=), trimSpaceU = id, isUpperU = (\<lambda>_. False),
     unquoteU = (\<lambda>_. None), filepathAbs = (\<lambda>p. ''/work/'' @ p), mapOrder = id\<rparr>"

section \<open>Struct tags\<close>

text \<open>
  \<^verbatim>\<open>strconv.Unquote\<close> on the quoted value of a tag: a newline inside is an error, a
  body of plain ASCII without backslash is returned as it is, anything else is decoded by
  the library.
\<close>

definition Unquote :: "GoEnv \<Rightarrow> string \<Rightarrow> string option" where
  "Unquote E q =
     (let body = butlast (tl q) in
      if CHR 0x0A \<in> set body then None
      else if isASCII body \<and> CHR 0x5C \<notin> set body \<and> CHR 0x22 \<notin> set body then Some body
      else unquoteU E q)"

text \<open>
  The scan of \<^verbatim>\<open>reflect.StructTag.Lookup\<close> for the closing quote, on the text after the
  opening quote: the number of bytes before it (a backslash skips the next byte).
\<close>

fun scanQuote :: "string \<Rightarrow> nat" where
  "scanQuote [] = 0"
| "scanQuote (c # cs) =
     (if c = CHR 0x22 then 0
      else if c = CHR 0x5C then (case cs of [] \<Rightarrow> 2 | _ # cs' \<Rightarrow> 2 + scanQuote cs')
      else 1 + scanQuote cs)"

definition nameChar :: "char \<Rightarrow> bool" where
  "nameChar c = ((of_char c :: nat) > 32 \<and> c \<noteq> CHR '':'' \<and> c \<noteq> CHR 0x22 \<and> c \<noteq> CHR 0x7F)"

text \<open>
  \<^verbatim>\<open>reflect.StructTag.Lookup\<close>: the conventional \<^verbatim>\<open>key:"value"\<close> pairs are read from the
  left, and the value of the first pair whose key is \<open>key\<close> is returned. Each round
  removes at least three bytes, so the length of the tag bounds the number of rounds.
\<close>

fun LookupFrom :: "nat \<Rightarrow> GoEnv \<Rightarrow> string \<Rightarrow> string \<Rightarrow> string option" where
  "LookupFrom 0 E tag key = None"
| "LookupFrom (Suc n) E tag key =
     (let tag1 = dropWhile (\<lambda>c. c = CHR '' '') tag in
      if tag1 = [] then None
      else
        let i = length (takeWhile nameChar tag1) in
        if i = 0 \<or> i + 1 \<ge> length tag1 \<or> tag1 ! i \<noteq> CHR '':'' \<or> tag1 ! (i + 1) \<noteq> CHR 0x22
        then None
        else
          let name = take i tag1;
              tag2 = drop (i + 1) tag1;
              j = 1 + scanQuote (tl tag2)
          in
          if j \<ge> length tag2 then None
          else
            let qvalue = take (j + 1) tag2;
                tag3 = drop (j + 1) tag2
            in
            if key = name then Unquote E qvalue else LookupFrom n E tag3 key)"

definition Lookup :: "GoEnv \<Rightarrow> string \<Rightarrow> string \<Rightarrow> string option" where
  "Lookup E tag key = LookupFrom (length tag) E tag key"

text \<open>\<^verbatim>\<open>reflect.StructTag.Get\<close>.\<close>

definition Get :: "GoEnv \<Rightarrow> string \<Rightarrow> string \<Rightarrow> string" where
  "Get E tag key = (case Lookup E tag key of None \<Rightarrow> '''' | Some v \<Rightarrow> v)"

text \<open>
  The test both tag filters make: the tag has the filter's key, and the filter's value is
  one of the parts of the key's value between semicolons.
\<close>

definition tagHasPart :: "GoEnv \<Rightarrow> string \<Rightarrow> TagFilter \<Rightarrow> bool" where
  "tagHasPart E tag f =
     (case Lookup E tag (Key f) of
        None \<Rightarrow> False
      | Some v \<Rightarrow> list_ex (\<lambda>part. part = Value f) (Split v CHR '';''))"

definition embeddedTags :: "TagFilter list" where
  "embeddedTags =
     [\<lparr>Key = ''gorm'', Value = ''embedded''\<rparr>,
      \<lparr>Key = ''db'', Value = ''embedded''\<rparr>,
      \<lparr>Key = ''json'', Value = ''inline''\<rparr>,
      \<lparr>Key = ''yaml'', Value = ''inline''\<rparr>,
      \<lparr>Key = ''mapstructure'', Value = ''squash''\<rparr>]"

definition isTagEmbedded :: "GoEnv \<Rightarrow> string \<Rightarrow> bool" where
  "isTagEmbedded E tag = (if tag = '''' then False else list_ex (tagHasPart E tag) embeddedTags)"

definition isGormReadOnly :: "GoEnv \<Rightarrow> string \<Rightarrow> bool" where
  "isGormReadOnly E tag =
     (if tag = '''' then False
      else
        let raw = Get E tag ''gorm'' in
        if raw = '''' then False
        else list_ex (\<lambda>part. TrimSpace E part = ''->'' \<or> TrimSpace E part = ''<-:create''
                              \<or> TrimSpace E part = ''primaryKey'')
               (Split raw CHR '';''))"

text \<open>
  \<^verbatim>\<open>strings.SplitN(s, sep, 2)\<close> when it returns two parts, which is also
  \<^verbatim>\<open>strings.Index\<close>: the text before and after the first occurrence of \<open>sep\<close>.
\<close>

fun cutAt :: "string \<Rightarrow> string \<Rightarrow> (string \<times> string) option" where
  "cutAt [] sep = (if sep = [] then Some ([], []) else None)"
| "cutAt (c # cs) sep =
     (if HasPrefix (c # cs) sep then Some ([], drop (length sep) (c # cs))
      else (case cutAt cs sep of None \<Rightarrow> None | Some (l, r) \<Rightarrow> Some (c # l, r)))"

text \<open>
  The generator's own tag parser, \<^verbatim>\<open>parseStructTagLit\<close>, on the literal without its
  back quotes. The Go map it fills is an association list with one entry for each key. The
  loop runs while the rest of the tag is not empty; every round removes the two bytes of
  the separator or more, so the fuel given by \<open>parseStructTagLit\<close> is enough whenever
  trimming spaces does not make a string longer, and \<open>None\<close> stands for a loop
  that does not end.
\<close>

fun parseTagLoop :: "nat \<Rightarrow> GoEnv \<Rightarrow> (string \<times> string) list \<Rightarrow> string \<Rightarrow> (string \<times> string) list option" where
  "parseTagLoop n E m [] = Some m"
| "parseTagLoop 0 E m (c # cs) = None"
| "parseTagLoop (Suc n) E m (c # cs) =
     (case cutAt (c # cs) '':\"'' of
        None \<Rightarrow> Some m
      | Some (key, rest) \<Rightarrow>
          (case cutAt rest ''\"'' of
             None \<Rightarrow> Some m
           | Some (val, rest') \<Rightarrow> parseTagLoop n E (AList.update key val m) (TrimSpace E rest')))"

definition parseStructTagLit :: "GoEnv \<Rightarrow> string option \<Rightarrow> (string \<times> string) list option" where
  "parseStructTagLit E lit =
     (case lit of
        None \<Rightarrow> Some []
      | Some v \<Rightarrow> parseTagLoop (length v) E [] (Trim v CHR 0x60))"

fun Join :: "string list \<Rightarrow> string \<Rightarrow> string" where
  "Join [] sep = []"
| "Join [x] sep = x"
| "Join (x # y # ys) sep = x @ sep @ Join (y # ys) sep"

text \<open>\<^verbatim>\<open>buildTagLiteral\<close> writes the map in the order in which Go iterates it.\<close>

definition buildTagLiteral :: "GoEnv \<Rightarrow> (string \<times> string) list \<Rightarrow> string" where
  "buildTagLiteral E m =
     [CHR 0x60] @ Join (map (\<lambda>(k, v). k @ '':\"'' @ v @ ''\"'') (mapOrder E m)) '' '' @ [CHR 0x60]"

section \<open>The data model\<close>

datatype Kind = KindInvalid | KindBuiltin | KindStruct | KindAlias | KindPointer | KindSlice

text \<open>
  The type expressions of \<^verbatim>\<open>go/ast\<close> that the builder tells apart; every other
  expression (a map, a function, an interface, ...) is \<open>OtherExpr\<close>.
\<close>

datatype Expr =
    Ident string
  | StarExpr Expr
  | ArrayType Expr
  | IndexExpr Expr Expr
  | IndexListExpr Expr "Expr list"
  | SelectorExpr Expr string
  | OtherExpr

record RawField =
  rf_Name :: string
  rf_Comment :: string
  rf_TypeExpr :: Expr
  rf_TagLit :: "string option"
  rf_IsExport :: bool
  rf_IsEmbedded :: bool

record RawStruct =
  rs_Name :: string
  rs_Alias :: "string option"
  rs_AliasPtr :: "bool option"
  rs_Comment :: string
  rs_TypeParams :: "string list"
  rs_Fields :: "RawField list"
  rs_PkgPath :: string

record ExternalAlias =
  ea_PkgPath :: string
  ea_TypeName :: string
  ea_TypeArgs :: "Expr list"

text \<open>
  A \<^verbatim>\<open>*model.WorkingType\<close>. The builder keeps the types it looks up by name, and the
  leaves it makes for builtin, external and instantiated types, as nodes that it may
  change later: these live in a store and are named by their address. The nodes
  \<^verbatim>\<open>&WorkingType{Kind: KindPointer, Underlying: elem}\<close> and the same for
  \<^verbatim>\<open>KindSlice\<close> are built around an element, never changed and never compared: they
  are values. No node in the store has kind Pointer or Slice: a node is allocated with
  kind Builtin or Struct, and \<^verbatim>\<open>populateFields\<close> alone changes a kind, to Alias.
\<close>

type_synonym addr = nat

datatype wtptr = Node addr | PointerOf wtptr | SliceOf wtptr

text \<open>
  A \<^verbatim>\<open>[]*WorkingField\<close> is a list of fields: the builder stores only fields it has just
  made, a field is not changed once made, and so no pointer in the list is nil and the
  loops' nil tests are left out. \<^verbatim>\<open>TypeArgs\<close> and \<^verbatim>\<open>RawFile\<close> are never read.
\<close>

record WorkingField =
  wf_Name :: string
  wf_RawName :: string
  wf_Comment :: string
  wf_Embedded :: bool
  wf_Type :: wtptr
  wf_Tag :: string
  wf_RawTag :: string
  wf_Omit :: bool
  wf_Deprecated :: bool

record WorkingType =
  wt_Name :: string
  wt_PkgPath :: string
  wt_Kind :: Kind
  wt_Underlying :: "wtptr option"
  wt_Fields :: "WorkingField list"
  wt_Comment :: string
  wt_TypeParams :: "string list"
  wt_IsExternal :: bool
  wt_IsDeprecated :: bool
  wt_Omit :: bool
  wt_Embedded :: bool
  wt_NameResolved :: bool
  wt_AliasApplied :: bool

text \<open>Go's zero value: what a struct literal leaves out.\<close>

definition zeroWT :: WorkingType where
  "zeroWT = \<lparr>wt_Name = '''', wt_PkgPath = '''', wt_Kind = KindInvalid, wt_Underlying = None,
     wt_Fields = [], wt_Comment = '''', wt_TypeParams = [], wt_IsExternal = False,
     wt_IsDeprecated = False, wt_Omit = False, wt_Embedded = False, wt_NameResolved = False,
     wt_AliasApplied = False\<rparr>"

type_synonym store = "addr \<Rightarrow> WorkingType"

text \<open>Reading through a pointer.\<close>

fun deref :: "store \<Rightarrow> wtptr \<Rightarrow> WorkingType" where
  "deref h (Node a) = h a"
| "deref h (PointerOf elem) = zeroWT\<lparr>wt_Kind := KindPointer, wt_Underlying := Some elem\<rparr>"
| "deref h (SliceOf elem) = zeroWT\<lparr>wt_Kind := KindSlice, wt_Underlying := Some elem\<rparr>"

text \<open>The output descriptors of \<^verbatim>\<open>internal/model\<close>.\<close>

datatype TypeRef =
  TypeRef (PkgPath: string) (Name: string) (IsPtr: bool) (IsSlice: bool) (IsEmbedded: bool)
    (Elem: "TypeRef option")

record ApiField =
  af_Name :: string
  af_Type :: "TypeRef option"
  af_Tag :: string
  af_RawTag :: string
  af_Comment :: string
  af_Omit :: bool
  af_IsEmbedded :: bool

record ApiStruct =
  as_Name :: string
  as_Alias :: "string option"
  as_AliasPtr :: "bool option"
  as_Comment :: string
  as_Fields :: "ApiField list"
  as_Imports :: "string set"
  as_PkgName :: string

section \<open>The builder\<close>

text \<open>
  What a builder function does: it returns, it panics, or its recursion is not over when
  the fuel is (see \<open>resolveTypeExpr\<close>).
\<close>

datatype 'a outcome = Done 'a | Panic panic | Unfinished

fun andThen :: "'a outcome \<Rightarrow> ('a \<Rightarrow> 'b outcome) \<Rightarrow> 'b outcome" where
  "andThen (Done x) f = f x"
| "andThen (Panic e) f = Panic e"
| "andThen Unfinished f = Unfinished"

text \<open>
  The declaration source is the parser that the builder holds: its import table (which is
  the builder's \<^verbatim>\<open>imports\<close>), its cache of external packages, and the packages on disk.
  The builder only asks it questions; an answer can change the parser (the cache grows,
  imports are registered, a syntax tree is rewritten in place). Its state is a value of
  any type \<open>'src\<close> and the questions are the fields of a \<open>Source\<close>:
  \<^item> \<open>importPath\<close>: the path of \<^verbatim>\<open>b.imports[alias]\<close>;
  \<^item> \<open>probeImports\<close>: the loop of \<^verbatim>\<open>resolveIdentType\<close> over \<^verbatim>\<open>b.imports\<close>, in Go's
    order: the path of the first import in which \<^verbatim>\<open>getExternalStructAST\<close> finds the name;
  \<^item> \<open>loadStruct\<close>: \<^verbatim>\<open>getExternalStructAST\<close> followed by \<^verbatim>\<open>rawFieldsFromExternalAST\<close>;
  \<^item> \<open>aliasFields\<close>: the first half of \<^verbatim>\<open>buildExternalAliasType\<close>, that is
    \<^verbatim>\<open>getExternalStructAST\<close>, \<^verbatim>\<open>rawFieldsFromAST\<close> and the substitution of a single type
    argument;
  \<^item> \<open>externalAliases\<close>: the parser's table of that name.
\<close>

record 'src Source =
  importPath :: "'src \<Rightarrow> string \<Rightarrow> string option"
  probeImports :: "'src \<Rightarrow> string \<Rightarrow> string option \<times> 'src"
  loadStruct :: "'src \<Rightarrow> string \<Rightarrow> string \<Rightarrow> RawField list option \<times> 'src"
  aliasFields :: "'src \<Rightarrow> ExternalAlias \<Rightarrow> RawField list option \<times> 'src"
  externalAliases :: "'src \<Rightarrow> string \<Rightarrow> ExternalAlias option"

record 'src Builder =
  parser :: 'src
  opts :: Options
  raws :: "RawStruct list"
  byName :: "string \<Rightarrow> addr option"
  resolving :: "string set"
  store :: store
  nextAddr :: addr

type_synonym ('src, 'a) run = "'src Builder \<Rightarrow> ('a \<times> 'src Builder) outcome"

definition NewBuilder :: "Options \<Rightarrow> RawStruct list \<Rightarrow> 'src \<Rightarrow> 'src Builder" where
  "NewBuilder os rs p = \<lparr>parser = p, opts = os, raws = rs, byName = Map.empty, resolving = {},
     store = (\<lambda>_. zeroWT), nextAddr = 0\<rparr>"

text \<open>\<^verbatim>\<open>&model.WorkingType{...}\<close>: a new node.\<close>

definition alloc :: "WorkingType \<Rightarrow> 'src Builder \<Rightarrow> addr \<times> 'src Builder" where
  "alloc wt b = (nextAddr b, b\<lparr>store := (store b)(nextAddr b := wt), nextAddr := Suc (nextAddr b)\<rparr>)"

text \<open>An assignment to fields of the node at an address.\<close>

definition modify :: "addr \<Rightarrow> (WorkingType \<Rightarrow> WorkingType) \<Rightarrow> 'src Builder \<Rightarrow> 'src Builder" where
  "modify a f b = b\<lparr>store := (store b)(a := f (store b a))\<rparr>"

definition Find :: "RawStruct list \<Rightarrow> string \<Rightarrow> RawStruct option" where
  "Find x name = List.find (\<lambda>s. rs_Name s = name) x"

definition ensureWorkingType :: "string \<Rightarrow> 'src Builder \<Rightarrow> addr \<times> 'src Builder" where
  "ensureWorkingType name b =
     (case byName b name of
        Some t \<Rightarrow> (t, b)
      | None \<Rightarrow>
          let wt = zeroWT\<lparr>wt_Name := name, wt_PkgPath := '''', wt_Kind := KindStruct, wt_Fields := []\<rparr>;
              wt' = (case Find (raws b) name of
                       None \<Rightarrow> wt
                     | Some raw \<Rightarrow> wt\<lparr>wt_PkgPath := rs_PkgPath raw, wt_Comment := rs_Comment raw,
                                      wt_TypeParams := rs_TypeParams raw\<rparr>);
              (a, b1) = alloc wt' b
          in (a, b1\<lparr>byName := (byName b1)(name \<mapsto> a)\<rparr>))"

definition shouldOmitFieldByTag :: "GoEnv \<Rightarrow> Options \<Rightarrow> RawField \<Rightarrow> bool" where
  "shouldOmitFieldByTag E os rf =
     (case rf_TagLit rf of
        None \<Rightarrow> False
      | Some lit \<Rightarrow>
          if length (ExcludeByTags os) = 0 then False
          else
            let raw = Trim lit CHR 0x60 in
            if raw = '''' then False else list_ex (tagHasPart E raw) (ExcludeByTags os))"

text \<open>
  \<^verbatim>\<open>resolveRawField\<close>. The functions that resolve a type expression call one another in a
  circle; \<open>rte\<close> stands for the call of \<^verbatim>\<open>resolveTypeExpr\<close> that closes it.
\<close>

definition resolveRawField ::
  "(Expr \<Rightarrow> ('src, wtptr) run) \<Rightarrow> GoEnv \<Rightarrow> RawField \<Rightarrow> ('src, WorkingField list) run" where
  "resolveRawField rte E rf b =
     (if shouldOmitFieldByTag E (opts b) rf then Done ([], b)
      else
        case parseStructTagLit E (rf_TagLit rf) of
          None \<Rightarrow> Unfinished
        | Some tagMap \<Rightarrow>
            let rawTag = buildTagLiteral E tagMap;
                tagMap' = (if \<not> KeepORMTags (opts b)
                           then AList.delete ''db'' (AList.delete ''gorm'' tagMap) else tagMap);
                tag = buildTagLiteral E tagMap'
            in andThen (rte (rf_TypeExpr rf) b) (\<lambda>(t, b1).
                 let deprecated = (ExcludeDeprecated (opts b1) \<and>
                       (Contains (rf_Comment rf) ''Deprecated'' \<or> Contains (rf_Comment rf) ''deprecated''))
                 in Done ([\<lparr>wf_Name = rf_Name rf, wf_RawName = rf_Name rf, wf_Comment = rf_Comment rf,
                            wf_Embedded = rf_IsEmbedded rf, wf_Type = t,
                            wf_Tag = Trim tag CHR 0x60, wf_RawTag = Trim rawTag CHR 0x60,
                            wf_Omit = False, wf_Deprecated = deprecated\<rparr>], b1)))"

text \<open>
  The loop that four functions share: every raw field is resolved and what it gives is
  appended to the fields of the node at \<open>a\<close>.
\<close>

fun appendFields ::
  "(Expr \<Rightarrow> ('src, wtptr) run) \<Rightarrow> GoEnv \<Rightarrow> addr \<Rightarrow> RawField list \<Rightarrow> 'src Builder \<Rightarrow> 'src Builder outcome" where
  "appendFields rte E a [] b = Done b"
| "appendFields rte E a (rf # rfs) b =
     andThen (resolveRawField rte E rf b) (\<lambda>(fs, b1).
       appendFields rte E a rfs
         (if length fs > 0 then modify a (\<lambda>wt. wt\<lparr>wt_Fields := wt_Fields wt @ fs\<rparr>) b1 else b1))"

definition loadExternalRawStruct ::
  "'src Source \<Rightarrow> string \<Rightarrow> string \<Rightarrow> 'src Builder \<Rightarrow> RawStruct option \<times> 'src Builder" where
  "loadExternalRawStruct S pkgPath typeName b =
     (if pkgPath = '''' \<or> typeName = '''' then (None, b)
      else
        let (r, p') = loadStruct S (parser b) pkgPath typeName in
        (case r of
           None \<Rightarrow> (None, b\<lparr>parser := p'\<rparr>)
         | Some rfs \<Rightarrow>
             (Some \<lparr>rs_Name = typeName, rs_Alias = None, rs_AliasPtr = None, rs_Comment = '''',
                     rs_TypeParams = [], rs_Fields = rfs, rs_PkgPath = pkgPath\<rparr>,
              b\<lparr>parser := p'\<rparr>)))"

definition resolveTypeExprAlias ::
  "(Expr \<Rightarrow> ('src, wtptr) run) \<Rightarrow> GoEnv \<Rightarrow> 'src Source \<Rightarrow> string \<Rightarrow> bool option \<Rightarrow> ('src, wtptr) run" where
  "resolveTypeExprAlias rte E S aliasName aliasPtr b =
     andThen
       (case byName b aliasName of
          Some a \<Rightarrow> Done (Node a, b)
        | None \<Rightarrow>
            (case loadExternalRawStruct S '''' aliasName b of
               (Some raw, b1) \<Rightarrow>
                 (let (a, b2) = ensureWorkingType aliasName b1 in
                  andThen (appendFields rte E a (rs_Fields raw) b2) (\<lambda>b3. Done (Node a, b3)))
             | (None, b1) \<Rightarrow>
                 (let (a, b2) = alloc (zeroWT\<lparr>wt_Name := aliasName, wt_Kind := KindStruct\<rparr>) b1
                  in Done (Node a, b2))))
       (\<lambda>(elem, b').
          if aliasPtr = Some True then Done (SliceOf (PointerOf elem), b')
          else Done (SliceOf elem, b'))"

definition populateFields ::
  "(Expr \<Rightarrow> ('src, wtptr) run) \<Rightarrow> GoEnv \<Rightarrow> 'src Source \<Rightarrow> addr \<Rightarrow> 'src Builder \<Rightarrow> 'src Builder outcome" where
  "populateFields rte E S a b =
     (let name = wt_Name (store b a) in
      if name \<in> resolving b then Done b
      else
        let b1 = b\<lparr>resolving := insert name (resolving b)\<rparr> in
        andThen
          (case Find (raws b1) name of
             None \<Rightarrow> Done b1
           | Some raw \<Rightarrow>
               (case rs_Alias raw of
                  Some alias \<Rightarrow>
                    andThen
                      (resolveTypeExprAlias rte E S alias (rs_AliasPtr raw)
                         (modify a (\<lambda>wt. wt\<lparr>wt_Kind := KindAlias\<rparr>) b1))
                      (\<lambda>(u, b2). Done (modify a (\<lambda>wt. wt\<lparr>wt_Underlying := Some u\<rparr>) b2))
                | None \<Rightarrow> appendFields rte E a (rs_Fields raw) b1))
          (\<lambda>b'. Done (b'\<lparr>resolving := resolving b' - {name}\<rparr>)))"

definition builtinIdents :: "string list" where
  "builtinIdents =
     [''string'', ''bool'', ''byte'', ''rune'', ''int'', ''int8'', ''int16'', ''int32'', ''int64'',
      ''uint'', ''uint8'', ''uint16'', ''uint32'', ''uint64'', ''float32'', ''float64'',
      ''complex64'', ''complex128'', ''error'']"

definition unknownLeaf :: WorkingType where
  "unknownLeaf = zeroWT\<lparr>wt_Name := ''UNKNOWN'', wt_Kind := KindBuiltin\<rparr>"

text \<open>\<^verbatim>\<open>resolveExternalType\<close>: a struct-like leaf with the fields the source finds for it.\<close>

definition resolveExternalType ::
  "(Expr \<Rightarrow> ('src, wtptr) run) \<Rightarrow> GoEnv \<Rightarrow> 'src Source \<Rightarrow> string \<Rightarrow> string \<Rightarrow> ('src, wtptr) run" where
  "resolveExternalType rte E S pkgPath typeName0 b =
     (let typeName = (if typeName0 = '''' then ''UNKNOWN'' else typeName0);
          (a, b1) = alloc (zeroWT\<lparr>wt_Name := typeName, wt_PkgPath := pkgPath, wt_Kind := KindStruct,
                                   wt_IsExternal := True, wt_Fields := []\<rparr>) b
      in case loadExternalRawStruct S pkgPath typeName b1 of
           (Some raw, b2) \<Rightarrow> andThen (appendFields rte E a (rs_Fields raw) b2) (\<lambda>b3. Done (Node a, b3))
         | (None, b2) \<Rightarrow> Done (Node a, b2))"

definition buildExternalAliasType ::
  "(Expr \<Rightarrow> ('src, wtptr) run) \<Rightarrow> GoEnv \<Rightarrow> 'src Source \<Rightarrow> string \<Rightarrow> ExternalAlias \<Rightarrow> ('src, wtptr) run" where
  "buildExternalAliasType rte E S aliasName ea b =
     (let (a, b1) = alloc (zeroWT\<lparr>wt_Name := aliasName, wt_PkgPath := ea_PkgPath ea,
                                   wt_Kind := KindStruct, wt_IsExternal := True, wt_Fields := []\<rparr>) b;
          (r, p') = aliasFields S (parser b1) ea;
          b2 = b1\<lparr>parser := p'\<rparr>
      in case r of
           None \<Rightarrow> Done (Node a, b2)
         | Some rawFields \<Rightarrow> andThen (appendFields rte E a rawFields b2) (\<lambda>b3. Done (Node a, b3)))"

text \<open>\<^verbatim>\<open>resolveIdentType\<close>: a builtin, a local struct, an alias of an external generic, an
  external type found by its name alone, or else a leaf of that name.\<close>

definition resolveIdentType ::
  "(Expr \<Rightarrow> ('src, wtptr) run) \<Rightarrow> GoEnv \<Rightarrow> 'src Source \<Rightarrow> string \<Rightarrow> ('src, wtptr) run" where
  "resolveIdentType rte E S name b =
     (if name \<in> set builtinIdents
      then (let (a, b1) = alloc (zeroWT\<lparr>wt_Name := name, wt_Kind := KindBuiltin\<rparr>) b in Done (Node a, b1))
      else if Find (raws b) name \<noteq> None
      then (let (a, b1) = ensureWorkingType name b in Done (Node a, b1))
      else
        case externalAliases S (parser b) name of
          Some ea \<Rightarrow> buildExternalAliasType rte E S name ea b
        | None \<Rightarrow>
            (let (found, p') = probeImports S (parser b) name;
                 b1 = b\<lparr>parser := p'\<rparr>
             in case found of
                  Some path \<Rightarrow> resolveExternalType rte E S path name b1
                | None \<Rightarrow>
                    (let (a, b2) = alloc (zeroWT\<lparr>wt_Name := name, wt_Kind := KindBuiltin\<rparr>) b1
                     in Done (Node a, b2))))"

text \<open>\<^verbatim>\<open>resolveSelector\<close>, for \<^verbatim>\<open>X.Sel\<close>.\<close>

definition resolveSelector :: "'src Source \<Rightarrow> Expr \<Rightarrow> string \<Rightarrow> 'src Builder \<Rightarrow> string \<times> string" where
  "resolveSelector S x sel b =
     (case x of
        Ident alias \<Rightarrow>
          (if alias = '''' then ('''', sel)
           else (case importPath S (parser b) alias of
                   Some path \<Rightarrow> (path, sel)
                 | None \<Rightarrow> ('''', sel)))
      | _ \<Rightarrow> ('''', sel))"

fun firstIndex :: "string list \<Rightarrow> string \<Rightarrow> nat option" where
  "firstIndex [] x = None"
| "firstIndex (p # ps) x = (if x = p then Some 0 else map_option Suc (firstIndex ps x))"

text \<open>
  \<^verbatim>\<open>substituteParamsInWT\<close>. The first loop returns \<^verbatim>\<open>args[i]\<close> for the first parameter
  that is the name of the type; an index past the end of \<^verbatim>\<open>args\<close> is a panic.
\<close>

fun substituteParamsInWT :: "store \<Rightarrow> wtptr \<Rightarrow> string list \<Rightarrow> wtptr list \<Rightarrow> wtptr outcome" where
  "substituteParamsInWT h (Node a) params args =
     (case firstIndex params (wt_Name (deref h (Node a))) of
        Some i \<Rightarrow> (if i < length args then Done (args ! i) else Panic IndexOutOfRange)
      | None \<Rightarrow> Done (Node a))"
| "substituteParamsInWT h (PointerOf u) params args =
     (case firstIndex params (wt_Name (deref h (PointerOf u))) of
        Some i \<Rightarrow> (if i < length args then Done (args ! i) else Panic IndexOutOfRange)
      | None \<Rightarrow> andThen (substituteParamsInWT h u params args) (\<lambda>u'. Done (PointerOf u')))"
| "substituteParamsInWT h (SliceOf u) params args =
     (case firstIndex params (wt_Name (deref h (SliceOf u))) of
        Some i \<Rightarrow> (if i < length args then Done (args ! i) else Panic IndexOutOfRange)
      | None \<Rightarrow> andThen (substituteParamsInWT h u params args) (\<lambda>u'. Done (SliceOf u')))"

text \<open>\<^verbatim>\<open>fmt.Sprintf("T%d", i)\<close>.\<close>

fun natToDec :: "nat \<Rightarrow> string" where
  "natToDec n = (if n < 10 then [''0123456789'' ! n] else natToDec (n div 10) @ [''0123456789'' ! (n mod 10)])"

definition syntheticParamNames :: "nat \<Rightarrow> string list" where
  "syntheticParamNames n = map (\<lambda>i. ''T'' @ natToDec i) [0..<n]"

text \<open>The loop of \<^verbatim>\<open>instantiateGeneric\<close> over the fields of the base.\<close>

fun substituteFields ::
  "store \<Rightarrow> WorkingField list \<Rightarrow> string list \<Rightarrow> wtptr list \<Rightarrow> WorkingField list outcome" where
  "substituteFields h [] params args = Done []"
| "substituteFields h (f # fs) params args =
     andThen (substituteParamsInWT h (wf_Type f) params args) (\<lambda>t.
       andThen (substituteFields h fs params args) (\<lambda>fs'. Done (f\<lparr>wf_Type := t\<rparr> # fs')))"

text \<open>
  The first half of \<^verbatim>\<open>instantiateGeneric\<close>: an alias is unwrapped, and a local struct
  that has no fields yet is populated at once. It gives the base that is instantiated.
\<close>

definition genericBase ::
  "(Expr \<Rightarrow> ('src, wtptr) run) \<Rightarrow> GoEnv \<Rightarrow> 'src Source \<Rightarrow> wtptr \<Rightarrow> ('src, wtptr) run" where
  "genericBase rte E S base1 b =
     (let base = (if wt_Kind (deref (store b) base1) = KindAlias
                  then (case wt_Underlying (deref (store b) base1) of Some u \<Rightarrow> u | None \<Rightarrow> base1)
                  else base1);
          wt0 = deref (store b) base
      in
      andThen
        (if \<not> wt_IsExternal wt0 \<and> wt_Kind wt0 = KindStruct \<and> length (wt_Fields wt0) = 0
         then (if Find (raws b) (wt_Name wt0) \<noteq> None
               then (case base of Node a \<Rightarrow> populateFields rte E S a b | _ \<Rightarrow> Done b)
               else Done b)
         else Done b)
        (\<lambda>b1. Done (base, b1)))"

text \<open>
  \<^verbatim>\<open>instantiateGeneric\<close>. A base that is nil gives an unknown leaf; a base that is
  external, not a struct or without fields is returned as it is; any other base is cloned
  with its fields' types substituted.
\<close>

definition instantiateGeneric ::
  "(Expr \<Rightarrow> ('src, wtptr) run) \<Rightarrow> GoEnv \<Rightarrow> 'src Source \<Rightarrow> wtptr option \<Rightarrow> wtptr list \<Rightarrow> ('src, wtptr) run" where
  "instantiateGeneric rte E S base0 args b =
     (case base0 of
        None \<Rightarrow> (let (a, b1) = alloc unknownLeaf b in Done (Node a, b1))
      | Some base1 \<Rightarrow>
          andThen (genericBase rte E S base1 b) (\<lambda>(base, b1).
            let wt = deref (store b1) base in
            if wt_IsExternal wt \<or> wt_Kind wt \<noteq> KindStruct \<or> length (wt_Fields wt) = 0
            then Done (base, b1)
            else
              let paramNames = (if length (wt_TypeParams wt) \<noteq> length args
                                then syntheticParamNames (length args) else wt_TypeParams wt)
              in andThen (substituteFields (store b1) (wt_Fields wt) paramNames args) (\<lambda>fs.
                   let (a, b2) = alloc (zeroWT\<lparr>wt_Name := wt_Name wt, wt_PkgPath := wt_PkgPath wt,
                                               wt_Kind := KindStruct, wt_Fields := fs,
                                               wt_Comment := wt_Comment wt,
                                               wt_IsExternal := wt_IsExternal wt\<rparr>) b1
                   in Done (Node a, b2))))"

text \<open>
  \<^verbatim>\<open>resolveTypeExpr\<close>, one level: the recursion into the parts of the expression is
  written out, and \<open>rte\<close> resolves the type expressions of the raw fields that the
  functions above come to.
\<close>

fun resolveTypeExprF ::
    "(Expr \<Rightarrow> ('src, wtptr) run) \<Rightarrow> GoEnv \<Rightarrow> 'src Source \<Rightarrow> Expr \<Rightarrow> ('src, wtptr) run"
  and resolveIndices ::
    "(Expr \<Rightarrow> ('src, wtptr) run) \<Rightarrow> GoEnv \<Rightarrow> 'src Source \<Rightarrow> Expr list \<Rightarrow> ('src, wtptr list) run"
where
  "resolveTypeExprF rte E S (Ident name) b = resolveIdentType rte E S name b"
| "resolveTypeExprF rte E S (StarExpr x) b =
     andThen (resolveTypeExprF rte E S x b) (\<lambda>(elem, b1). Done (PointerOf elem, b1))"
| "resolveTypeExprF rte E S (ArrayType elt) b =
     andThen (resolveTypeExprF rte E S elt b) (\<lambda>(elem, b1). Done (SliceOf elem, b1))"
| "resolveTypeExprF rte E S (IndexExpr x index) b =
     andThen (resolveTypeExprF rte E S x b) (\<lambda>(baseType, b1).
       andThen (resolveTypeExprF rte E S index b1) (\<lambda>(argWT, b2).
         instantiateGeneric rte E S (Some baseType) [argWT] b2))"
| "resolveTypeExprF rte E S (IndexListExpr x indices) b =
     andThen (resolveTypeExprF rte E S x b) (\<lambda>(baseType, b1).
       andThen (resolveIndices rte E S indices b1) (\<lambda>(args, b2).
         instantiateGeneric rte E S (Some baseType) args b2))"
| "resolveTypeExprF rte E S (SelectorExpr x sel) b =
     (let (pkgPath, typeName) = resolveSelector S x sel b
      in resolveExternalType rte E S pkgPath typeName b)"
| "resolveTypeExprF rte E S OtherExpr b =
     (let (a, b1) = alloc unknownLeaf b in Done (Node a, b1))"
| "resolveIndices rte E S [] b = Done ([], b)"
| "resolveIndices rte E S (e # es) b =
     andThen (resolveTypeExprF rte E S e b) (\<lambda>(t, b1).
       andThen (resolveIndices rte E S es b1) (\<lambda>(ts, b2). Done (t # ts, b2)))"

text \<open>
  \<^verbatim>\<open>resolveTypeExpr\<close>. Resolving a type expression can come to populate a struct or to
  load an external one, each of whose raw fields has a type expression to resolve. Between
  local structs the set \<^verbatim>\<open>resolving\<close> ends this; between external structs nothing does.
  The fuel is the depth to which raw fields within raw fields are followed, and
  \<open>Unfinished\<close> says that the depth was not enough.
\<close>

primrec resolveTypeExpr :: "nat \<Rightarrow> GoEnv \<Rightarrow> 'src Source \<Rightarrow> Expr \<Rightarrow> ('src, wtptr) run" where
  "resolveTypeExpr 0 E S = (\<lambda>e b. Unfinished)"
| "resolveTypeExpr (Suc n) E S = resolveTypeExprF (resolveTypeExpr n E S) E S"

section \<open>The transformation passes\<close>

definition isTypeExcluded :: "GoEnv \<Rightarrow> Options \<Rightarrow> string \<Rightarrow> bool" where
  "isTypeExcluded E os name =
     (if length (ExcludeTypes os) = 0 \<or> name = '''' then False
      else
        let lower = ToLower E name in
        list_ex (\<lambda>t. t = lower) (ExcludeTypes os))"

definition filterDeprecated :: "Options \<Rightarrow> WorkingType \<Rightarrow> WorkingType" where
  "filterDeprecated os wt =
     (if \<not> ExcludeDeprecated os then wt
      else if Contains (wt_Comment wt) ''Deprecated'' \<or> Contains (wt_Comment wt) ''deprecated''
      then wt\<lparr>wt_Omit := True\<rparr>
      else wt\<lparr>wt_Fields := filter (\<lambda>f. \<not> wf_Deprecated f) (wt_Fields wt)\<rparr>)"

text \<open>Whether the fields of a field's type can be spliced in: the type is a struct and has fields.\<close>

definition hasFieldsToInline :: "store \<Rightarrow> WorkingField \<Rightarrow> bool" where
  "hasFieldsToInline h f =
     (wt_Kind (deref h (wf_Type f)) = KindStruct \<and> length (wt_Fields (deref h (wf_Type f))) > 0)"

text \<open>The loop of \<^verbatim>\<open>flattenEmbedded\<close>; \<open>out\<close> is the slice it appends to.\<close>

fun flattenEmbeddedLoop ::
  "Options \<Rightarrow> store \<Rightarrow> WorkingField list \<Rightarrow> WorkingField list \<Rightarrow> WorkingField list" where
  "flattenEmbeddedLoop os h out [] = out"
| "flattenEmbeddedLoop os h out (f # fs) =
     (if wf_Embedded f then
        (if FlattenEmbedded os then
           flattenEmbeddedLoop os h
             (if hasFieldsToInline h f then out @ wt_Fields (deref h (wf_Type f)) else out) fs
         else if IncludeEmbedded os then
           flattenEmbeddedLoop os h
             (if hasFieldsToInline h f then (out @ [f]) @ wt_Fields (deref h (wf_Type f))
              else out @ [f]) fs
         else flattenEmbeddedLoop os h (out @ [f]) fs)
      else flattenEmbeddedLoop os h (out @ [f]) fs)"

definition flattenEmbedded :: "Options \<Rightarrow> store \<Rightarrow> WorkingType \<Rightarrow> WorkingType" where
  "flattenEmbedded os h wt =
     (if \<not> FlattenEmbedded os then wt
      else if wt_Kind wt \<noteq> KindStruct then wt
      else wt\<lparr>wt_Fields := flattenEmbeddedLoop os h [] (wt_Fields wt)\<rparr>)"

fun flattenTagEmbeddedLoop ::
  "GoEnv \<Rightarrow> Options \<Rightarrow> store \<Rightarrow> WorkingField list \<Rightarrow> WorkingField list \<Rightarrow> WorkingField list" where
  "flattenTagEmbeddedLoop E os h out [] = out"
| "flattenTagEmbeddedLoop E os h out (f # fs) =
     (let inline = isTagEmbedded E (wf_RawTag f) in
      if \<not> inline \<or> wt_Kind (deref h (wf_Type f)) \<noteq> KindStruct
      then flattenTagEmbeddedLoop E os h (out @ [f]) fs
      else if FlattenEmbedded os
      then flattenTagEmbeddedLoop E os h (out @ wt_Fields (deref h (wf_Type f))) fs
      else if IncludeEmbedded os
      then flattenTagEmbeddedLoop E os h ((out @ [f]) @ wt_Fields (deref h (wf_Type f))) fs
      else flattenTagEmbeddedLoop E os h (out @ [f]) fs)"

definition flattenTagEmbedded :: "GoEnv \<Rightarrow> Options \<Rightarrow> store \<Rightarrow> WorkingType \<Rightarrow> WorkingType" where
  "flattenTagEmbedded E os h wt =
     (if wt_Kind wt \<noteq> KindStruct then wt
      else wt\<lparr>wt_Fields := flattenTagEmbeddedLoop E os h [] (wt_Fields wt)\<rparr>)"

definition applySuffix :: "Options \<Rightarrow> WorkingType \<Rightarrow> WorkingType" where
  "applySuffix os wt =
     (if wt_NameResolved wt then wt
      else if Suffix os = '''' then wt
      else if HasSuffix (wt_Name wt) (Suffix os) then wt\<lparr>wt_NameResolved := True\<rparr>
      else wt\<lparr>wt_Name := wt_Name wt @ Suffix os, wt_NameResolved := True\<rparr>)"

fun dedupeLoop :: "string set \<Rightarrow> WorkingField list \<Rightarrow> WorkingField list \<Rightarrow> WorkingField list" where
  "dedupeLoop seen out [] = out"
| "dedupeLoop seen out (f # fs) =
     (if wf_Name f = '''' then dedupeLoop seen (out @ [f]) fs
      else if wf_Name f \<in> seen then dedupeLoop seen out fs
      else dedupeLoop (insert (wf_Name f) seen) (out @ [f]) fs)"

definition dedupeFields :: "WorkingType \<Rightarrow> WorkingType" where
  "dedupeFields wt =
     (if wt_Kind wt \<noteq> KindStruct then wt
      else wt\<lparr>wt_Fields := dedupeLoop {} [] (wt_Fields wt)\<rparr>)"

text \<open>
  \<^verbatim>\<open>applyTransformations\<close> on the node at \<open>a\<close>. The two flattening passes read the fields
  of other nodes, as the passes that ran before have left them.
\<close>

definition applyTransformations :: "GoEnv \<Rightarrow> addr \<Rightarrow> 'src Builder \<Rightarrow> 'src Builder" where
  "applyTransformations E a b =
     (if wt_Omit (store b a) then b
      else if isTypeExcluded E (opts b) (wt_Name (store b a))
      then modify a (\<lambda>wt. wt\<lparr>wt_Omit := True\<rparr>) b
      else
        let b1 = modify a (filterDeprecated (opts b)) b in
        if wt_Omit (store b1 a) then b1
        else
          let b2 = modify a (flattenEmbedded (opts b1) (store b1)) b1;
              b3 = modify a (flattenTagEmbedded E (opts b2) (store b2)) b2;
              b4 = modify a (applySuffix (opts b3)) b3;
              b5 = modify a dedupeFields b4
          in b5)"

text \<open>
  \<^verbatim>\<open>BuildAll\<close>. Go iterates the map \<^verbatim>\<open>byName\<close> three times, each time in an order of its
  own choosing: \<open>order2\<close>, \<open>order3\<close> and \<open>order4\<close> are the keys in these orders.
\<close>

fun populateAll ::
  "nat \<Rightarrow> GoEnv \<Rightarrow> 'src Source \<Rightarrow> string list \<Rightarrow> 'src Builder \<Rightarrow> 'src Builder outcome" where
  "populateAll n E S [] b = Done b"
| "populateAll n E S (name # names) b =
     (case byName b name of
        None \<Rightarrow> populateAll n E S names b
      | Some a \<Rightarrow> andThen (populateFields (resolveTypeExpr n E S) E S a b) (populateAll n E S names))"

fun transformAll :: "GoEnv \<Rightarrow> string list \<Rightarrow> 'src Builder \<Rightarrow> 'src Builder" where
  "transformAll E [] b = b"
| "transformAll E (name # names) b =
     (case byName b name of
        None \<Rightarrow> transformAll E names b
      | Some a \<Rightarrow> transformAll E names (applyTransformations E a b))"

fun collectKept :: "'src Builder \<Rightarrow> string list \<Rightarrow> addr list" where
  "collectKept b [] = []"
| "collectKept b (name # names) =
     (case byName b name of
        None \<Rightarrow> collectKept b names
      | Some a \<Rightarrow> (if wt_Omit (store b a) then collectKept b names else a # collectKept b names))"

fun ensureAll :: "RawStruct list \<Rightarrow> 'src Builder \<Rightarrow> 'src Builder" where
  "ensureAll [] b = b"
| "ensureAll (raw # rs) b = ensureAll rs (snd (ensureWorkingType (rs_Name raw) b))"

definition BuildAll ::
  "nat \<Rightarrow> GoEnv \<Rightarrow> 'src Source \<Rightarrow> string list \<Rightarrow> string list \<Rightarrow> string list \<Rightarrow> ('src, addr list) run" where
  "BuildAll n E S order2 order3 order4 b =
     (let b1 = ensureAll (raws b) b in
      andThen (populateAll n E S order2 b1) (\<lambda>b2.
        let b3 = transformAll E order3 b2
        in Done (collectKept b3 order4, b3)))"

section \<open>The API mapper\<close>

definition setIsPtr :: "bool \<Rightarrow> TypeRef \<Rightarrow> TypeRef" where
  "setIsPtr v t = TypeRef (PkgPath t) (Name t) v (IsSlice t) (IsEmbedded t) (Elem t)"

definition leafRef :: "string \<Rightarrow> string \<Rightarrow> TypeRef" where
  "leafRef pkgPath name = TypeRef pkgPath name False False False None"

fun workingTypeToTypeRef :: "store \<Rightarrow> wtptr \<Rightarrow> TypeRef" where
  "workingTypeToTypeRef h (PointerOf u) =
     TypeRef '''' '''' True False False (Some (setIsPtr False (workingTypeToTypeRef h u)))"
| "workingTypeToTypeRef h (SliceOf u) =
     TypeRef '''' '''' False True False (Some (workingTypeToTypeRef h u))"
| "workingTypeToTypeRef h (Node a) =
     (if wt_Kind (h a) \<in> {KindStruct, KindBuiltin, KindAlias}
      then leafRef (wt_PkgPath (h a)) (wt_Name (h a))
      else leafRef '''' ''UNKNOWN'')"

definition isExportedName :: "GoEnv \<Rightarrow> string \<Rightarrow> bool" where
  "isExportedName E name =
     (case name of
        [] \<Rightarrow> False
      | c # _ \<Rightarrow> (if (of_char c :: nat) < 128 then asciiUpper c else isUpperU E name))"

fun trackImportsFromTypeRef :: "string set \<Rightarrow> TypeRef \<Rightarrow> string set" where
  "trackImportsFromTypeRef imports (TypeRef pkgPath name isPtr isSlice isEmbedded elem) =
     (let imports1 = (if pkgPath \<noteq> '''' then insert pkgPath imports else imports)
      in case elem of None \<Rightarrow> imports1 | Some e \<Rightarrow> trackImportsFromTypeRef imports1 e)"

definition workingFieldToApiField :: "store \<Rightarrow> WorkingField \<Rightarrow> ApiField" where
  "workingFieldToApiField h fld =
     \<lparr>af_Name = (if wf_Embedded fld then wt_Name (deref h (wf_Type fld)) else wf_Name fld),
      af_Type = Some (workingTypeToTypeRef h (wf_Type fld)),
      af_Tag = wf_Tag fld, af_RawTag = wf_RawTag fld, af_Comment = wf_Comment fld,
      af_Omit = wf_Omit fld, af_IsEmbedded = wf_Embedded fld\<rparr>"

fun structFieldsLoop :: "GoEnv \<Rightarrow> Options \<Rightarrow> store \<Rightarrow> ApiStruct \<Rightarrow> WorkingField list \<Rightarrow> ApiStruct" where
  "structFieldsLoop E os h api [] = api"
| "structFieldsLoop E os h api (fld # flds) =
     (if wf_Omit fld then structFieldsLoop E os h api flds
      else if \<not> (wf_Name fld = '''' \<and> wf_Embedded fld \<and> IncludeEmbedded os) \<and> \<not> isExportedName E (wf_Name fld)
      then structFieldsLoop E os h api flds
      else
        let tf = workingFieldToApiField h fld in
        structFieldsLoop E os h
          (api\<lparr>as_Fields := as_Fields api @ [tf],
               as_Imports := (case af_Type tf of None \<Rightarrow> as_Imports api
                              | Some t \<Rightarrow> trackImportsFromTypeRef (as_Imports api) t)\<rparr>) flds)"

definition workingStructToApiStruct :: "GoEnv \<Rightarrow> Options \<Rightarrow> store \<Rightarrow> WorkingType \<Rightarrow> ApiStruct" where
  "workingStructToApiStruct E os h wt =
     structFieldsLoop E os h
       \<lparr>as_Name = wt_Name wt, as_Alias = None, as_AliasPtr = None, as_Comment = wt_Comment wt,
        as_Fields = [], as_Imports = {}, as_PkgName = ''''\<rparr>
       (wt_Fields wt)"

text \<open>\<^verbatim>\<open>workingAliasToApiStruct\<close>: \<open>None\<close> is the nil it returns for an alias that is not
  a slice.\<close>

definition workingAliasToApiStruct :: "store \<Rightarrow> WorkingType \<Rightarrow> ApiStruct option" where
  "workingAliasToApiStruct h wt =
     (case wt_Underlying wt of
        None \<Rightarrow> None
      | Some u \<Rightarrow>
          (case (wt_Kind (deref h u), wt_Underlying (deref h u)) of
             (KindSlice, Some elem) \<Rightarrow>
               let isPtr = (wt_Kind (deref h elem) = KindPointer \<and> wt_Underlying (deref h elem) \<noteq> None);
                   target = (case (isPtr, wt_Underlying (deref h elem)) of
                               (True, Some t) \<Rightarrow> t | _ \<Rightarrow> elem);
                   aliasName = wt_Name (deref h target);
                   aliasPtr = isPtr
               in Some \<lparr>as_Name = wt_Name wt, as_Alias = Some aliasName, as_AliasPtr = Some aliasPtr,
                         as_Comment = wt_Comment wt, as_Fields = [], as_Imports = {},
                         as_PkgName = ''''\<rparr>
           | _ \<Rightarrow> None))"

definition stripSuffix :: "Options \<Rightarrow> string \<Rightarrow> string" where
  "stripSuffix os name =
     (if Suffix os \<noteq> '''' \<and> HasSuffix name (Suffix os) then TrimSuffix name (Suffix os) else name)"

text \<open>What \<^verbatim>\<open>ToApiStructs\<close> appends for one working type.\<close>

definition toApiStruct :: "GoEnv \<Rightarrow> Options \<Rightarrow> store \<Rightarrow> WorkingType \<Rightarrow> ApiStruct list" where
  "toApiStruct E os h wt =
     (if wt_Omit wt then []
      else if length (ExcludeTypes os) > 0 \<and>
              (length (wt_TypeParams wt) > 0 \<or>
               list_ex (\<lambda>ex. EqualFold E ex (stripSuffix os (wt_Name wt))) (ExcludeTypes os))
      then []
      else if wt_Kind wt = KindAlias \<and>
              (case wt_Underlying wt of
                 None \<Rightarrow> False
               | Some u \<Rightarrow> list_ex (\<lambda>ex. EqualFold E ex (stripSuffix os (wt_Name (deref h u))))
                              (ExcludeTypes os))
      then []
      else
        case wt_Kind wt of
          KindStruct \<Rightarrow> [workingStructToApiStruct E os h wt]
        | KindAlias \<Rightarrow> (case workingAliasToApiStruct h wt of None \<Rightarrow> [] | Some as \<Rightarrow> [as])
        | _ \<Rightarrow> [])"

definition ToApiStructs :: "GoEnv \<Rightarrow> Options \<Rightarrow> store \<Rightarrow> addr list \<Rightarrow> ApiStruct list" where
  "ToApiStructs E os h types = concat (map (\<lambda>a. toApiStruct E os h (h a)) types)"

section \<open>The patch synthesizer\<close>

text \<open>
  The parser as the synthesizer reads it. \<^verbatim>\<open>resolveAliasSliceElem\<close> builds the working
  model anew at every call; what \<^verbatim>\<open>BuildWorkingModel\<close> returns there is \<open>wm\<close>, the
  store and the types kept.
\<close>

record Parser =
  p_Opts :: Options
  p_RawStructs :: "RawStruct list"
  p_ApiStructs :: "ApiStruct list"

definition FindApi :: "ApiStruct list \<Rightarrow> string \<Rightarrow> ApiStruct option" where
  "FindApi x name = List.find (\<lambda>s. as_Name s = name) x"

definition resolveName :: "Parser \<Rightarrow> string \<Rightarrow> string" where
  "resolveName p name =
     (if Suffix (p_Opts p) \<noteq> '''' \<and> \<not> HasSuffix name (Suffix (p_Opts p))
      then name @ Suffix (p_Opts p) else name)"

fun aliasSliceElemLoop :: "store \<Rightarrow> addr list \<Rightarrow> TypeRef \<Rightarrow> TypeRef option" where
  "aliasSliceElemLoop h [] t = None"
| "aliasSliceElemLoop h (a # wts) t =
     (case (wt_Name (h a) = Name t \<and> wt_Kind (h a) = KindAlias, wt_Underlying (h a)) of
        (True, Some u) \<Rightarrow>
          (case (wt_Kind (deref h u), wt_Underlying (deref h u)) of
             (KindSlice, Some elem) \<Rightarrow> Some (workingTypeToTypeRef h elem)
           | _ \<Rightarrow> aliasSliceElemLoop h wts t)
      | _ \<Rightarrow> aliasSliceElemLoop h wts t)"

definition resolveAliasSliceElem :: "store \<times> addr list \<Rightarrow> TypeRef option \<Rightarrow> TypeRef option" where
  "resolveAliasSliceElem wm t0 =
     (case t0 of
        None \<Rightarrow> None
      | Some t \<Rightarrow> if Name t = '''' then None else aliasSliceElemLoop (fst wm) (snd wm) t)"

definition pointerizeTypeRef :: "TypeRef option \<Rightarrow> TypeRef option" where
  "pointerizeTypeRef t0 =
     (case t0 of None \<Rightarrow> None | Some t \<Rightarrow> Some (TypeRef '''' '''' True False False (Some t)))"

fun cloneTypeRef :: "TypeRef \<Rightarrow> TypeRef" where
  "cloneTypeRef (TypeRef pkgPath name isPtr isSlice isEmbedded elem) =
     TypeRef pkgPath name isPtr isSlice False
       (case elem of None \<Rightarrow> None | Some e \<Rightarrow> Some (cloneTypeRef e))"

text \<open>The innermost element of a type reference gets the patch suffix, unless it has it.\<close>

fun suffixLeaf :: "string \<Rightarrow> TypeRef \<Rightarrow> TypeRef" where
  "suffixLeaf patchSuffix (TypeRef pkgPath name isPtr isSlice isEmbedded elem) =
     (case elem of
        Some e \<Rightarrow> TypeRef pkgPath name isPtr isSlice isEmbedded (Some (suffixLeaf patchSuffix e))
      | None \<Rightarrow>
          TypeRef pkgPath (if \<not> HasSuffix name patchSuffix then name @ patchSuffix else name)
            isPtr isSlice isEmbedded None)"

definition pointerizePatchStructType :: "Parser \<Rightarrow> TypeRef option \<Rightarrow> TypeRef option" where
  "pointerizePatchStructType p t0 =
     (case t0 of
        None \<Rightarrow> None
      | Some t \<Rightarrow> pointerizeTypeRef (Some (suffixLeaf (PatchSuffix (p_Opts p)) (cloneTypeRef t))))"

text \<open>
  The element that \<^verbatim>\<open>buildPatchSliceFieldType\<close> finds for a type: of the slice itself,
  of the alias of that name in the working model, or of the alias of that name among the
  raw declarations. \<open>None\<close> is the nil that makes the type a scalar.
\<close>

definition patchBaseElem :: "Parser \<Rightarrow> store \<times> addr list \<Rightarrow> TypeRef \<Rightarrow> TypeRef option" where
  "patchBaseElem p wm t =
     (if IsSlice t \<and> Elem t \<noteq> None then Elem t
      else if \<not> IsSlice t then
        (case resolveAliasSliceElem wm (Some t) of
           Some aliasElem \<Rightarrow> Some aliasElem
         | None \<Rightarrow>
             (case Find (p_RawStructs p) (Name t) of
                None \<Rightarrow> None
              | Some raw \<Rightarrow>
                  (case rs_Alias raw of
                     None \<Rightarrow> None
                   | Some alias \<Rightarrow> Some (leafRef '''' alias))))
      else None)"

definition buildPatchSliceFieldType ::
  "Parser \<Rightarrow> store \<times> addr list \<Rightarrow> TypeRef option \<Rightarrow> TypeRef option" where
  "buildPatchSliceFieldType p wm t0 =
     (case t0 of
        None \<Rightarrow> None
      | Some t \<Rightarrow>
          (case patchBaseElem p wm t of
             None \<Rightarrow> pointerizeTypeRef (Some t)
           | Some baseElem \<Rightarrow>
               let elemPtr = IsPtr baseElem;
                   underlying = (case (IsPtr baseElem, Elem baseElem) of
                                   (True, Some e) \<Rightarrow> e | _ \<Rightarrow> baseElem);
                   elemName = (if Suffix (p_Opts p) \<noteq> '''' \<and> \<not> HasSuffix (Name underlying) (Suffix (p_Opts p))
                               then resolveName p (Name underlying) else Name underlying);
                   elemPatchName = elemName @ PatchSuffix (p_Opts p);
                   elemRef = (if elemPtr
                              then TypeRef '''' elemPatchName True False False
                                     (Some (leafRef '''' elemPatchName))
                              else leafRef '''' elemPatchName)
               in Some (TypeRef '''' ''PatchSlice'' True False False (Some elemRef))))"

text \<open>The patch field that the inner loop of \<^verbatim>\<open>buildPatchStructs\<close> makes of a base field.\<close>

definition patchField :: "GoEnv \<Rightarrow> Parser \<Rightarrow> store \<times> addr list \<Rightarrow> ApiField \<Rightarrow> ApiField" where
  "patchField E p wm f =
     \<lparr>af_Name = af_Name f,
      af_Type = (if isGormReadOnly E (af_RawTag f) then af_Type f
                 else if af_IsEmbedded f then pointerizePatchStructType p (af_Type f)
                 else buildPatchSliceFieldType p wm (af_Type f)),
      af_Tag = af_Tag f, af_RawTag = '''', af_Comment = af_Comment f, af_Omit = False,
      af_IsEmbedded = af_IsEmbedded f\<rparr>"

fun patchFieldsLoop ::
  "GoEnv \<Rightarrow> Parser \<Rightarrow> store \<times> addr list \<Rightarrow> ApiStruct \<Rightarrow> ApiField list \<Rightarrow> ApiStruct" where
  "patchFieldsLoop E p wm patch [] = patch"
| "patchFieldsLoop E p wm patch (f # fs) =
     (if af_Omit f then patchFieldsLoop E p wm patch fs
      else
        let pf = patchField E p wm f in
        patchFieldsLoop E p wm
          (patch\<lparr>as_Imports := (case af_Type pf of None \<Rightarrow> as_Imports patch
                                 | Some t \<Rightarrow> trackImportsFromTypeRef (as_Imports patch) t),
                 as_Fields := as_Fields patch @ [pf]\<rparr>) fs)"

text \<open>
  The second loop of \<^verbatim>\<open>buildPatchStructs\<close>, over the base structs. The loop over the
  excluded types inside it has no effect (its \<^verbatim>\<open>continue\<close> is that loop's own) and is
  left out.
\<close>

fun patchStructsLoop ::
  "GoEnv \<Rightarrow> store \<times> addr list \<Rightarrow> string \<Rightarrow> ApiStruct list \<Rightarrow> Parser \<Rightarrow> Parser" where
  "patchStructsLoop E wm patchSuffix [] p = p"
| "patchStructsLoop E wm patchSuffix (base # bases) p =
     (let patchName = as_Name base @ patchSuffix in
      if FindApi (p_ApiStructs p) patchName \<noteq> None then patchStructsLoop E wm patchSuffix bases p
      else if length (as_Fields base) = 0 then patchStructsLoop E wm patchSuffix bases p
      else if ExcludeDeprecated (p_Opts p) \<and> Contains (ToLower E (as_Comment base)) ''deprecated''
      then patchStructsLoop E wm patchSuffix bases p
      else
        let patch = patchFieldsLoop E p wm
                      \<lparr>as_Name = patchName, as_Alias = None, as_AliasPtr = None,
                       as_Comment = as_Comment base, as_Fields = [], as_Imports = {},
                       as_PkgName = as_PkgName base\<rparr>
                      (as_Fields base)
        in patchStructsLoop E wm patchSuffix bases (p\<lparr>p_ApiStructs := p_ApiStructs p @ [patch]\<rparr>))"

definition buildPatchStructs :: "GoEnv \<Rightarrow> store \<times> addr list \<Rightarrow> Parser \<Rightarrow> Parser" where
  "buildPatchStructs E wm p =
     (let patchSuffix = (if PatchSuffix (p_Opts p) = '''' then ''Patch'' else PatchSuffix (p_Opts p));
          baseStructs = filter (\<lambda>api. as_Alias api = None \<and> \<not> HasSuffix (as_Name api) patchSuffix)
                          (p_ApiStructs p)
      in patchStructsLoop E wm patchSuffix baseStructs p)"


text \<open>
  What \<^verbatim>\<open>Parse\<close> makes of the working model: the structs of \<^verbatim>\<open>ToApiStructs\<close>, then the
  patch structs after them. There is nothing when \<^verbatim>\<open>BuildAll\<close> does not return.
\<close>
definition parseStructs ::
  "GoEnv \<Rightarrow> Options \<Rightarrow> RawStruct list \<Rightarrow> store \<times> addr list \<Rightarrow> (addr list \<times> 'src Builder) outcome
     \<Rightarrow> ApiStruct list option" where
  "parseStructs E os rs wm out =
     (case out of
        Done (wts, b') \<Rightarrow>
          Some (p_ApiStructs (buildPatchStructs E wm
                  \<lparr>p_Opts = os, p_RawStructs = rs, p_ApiStructs = ToApiStructs E os (store b') wts\<rparr>))
      | _ \<Rightarrow> None)"

section \<open>Notions used to state the properties\<close>


section \<open>The marks of an immutable field\<close>

text \<open>
  The marks of the ORM convention as the specification lists them: the read-only mark, the
  create-only mark and the primary-key mark, in the spelling of GORM.
\<close>
definition immutableMarks :: "string list" where
  "immutableMarks = [''->'', ''<-:create'', ''primaryKey'']"

text \<open>
  A raw tag marks its field immutable when the value of its key \<^verbatim>\<open>gorm\<close> has one of the
  marks among its parts between semicolons, the spaces around a part aside.
\<close>
definition marksImmutable :: "GoEnv \<Rightarrow> string \<Rightarrow> bool" where
  "marksImmutable E tag =
     (case Lookup E tag ''gorm'' of
        None \<Rightarrow> False
      | Some v \<Rightarrow> list_ex (\<lambda>part. TrimSpace E part \<in> set immutableMarks) (Split v CHR '';''))"

text \<open>
  A raw tag spells a mark when a part is one of the marks once the case of the letters is
  ignored, or is the older spelling \<^verbatim>\<open>primary_key\<close> of the primary-key mark.
\<close>
definition spellsImmutable :: "GoEnv \<Rightarrow> string \<Rightarrow> bool" where
  "spellsImmutable E tag =
     (case Lookup E tag ''gorm'' of
        None \<Rightarrow> False
      | Some v \<Rightarrow> list_ex (\<lambda>part. list_ex (EqualFold E (TrimSpace E part))
                                      (immutableMarks @ [''primary_key'']))
                    (Split v CHR '';''))"

section \<open>Declarations without the fields that a tag rule excludes\<close>

text \<open>A declaration without the fields that a tag rule excludes.\<close>
definition dropExcluded :: "GoEnv \<Rightarrow> Options \<Rightarrow> RawField list \<Rightarrow> RawField list" where
  "dropExcluded E os rfs = filter (\<lambda>rf. \<not> shouldOmitFieldByTag E os rf) rfs"

text \<open>The same for a declaration, for the declarations of a builder, and for those that the
  source answers with when it is asked for a struct of another package or the fields of an alias.\<close>
definition dropExcludedRaw :: "GoEnv \<Rightarrow> Options \<Rightarrow> RawStruct \<Rightarrow> RawStruct" where
  "dropExcludedRaw E os raw = raw\<lparr>rs_Fields := dropExcluded E os (rs_Fields raw)\<rparr>"

definition dropExcludedB :: "GoEnv \<Rightarrow> Options \<Rightarrow> 'src Builder \<Rightarrow> 'src Builder" where
  "dropExcludedB E os b = b\<lparr>raws := map (dropExcludedRaw E os) (raws b)\<rparr>"

definition dropExcludedS :: "GoEnv \<Rightarrow> Options \<Rightarrow> 'src Source \<Rightarrow> 'src Source" where
  "dropExcludedS E os S =
     S\<lparr>loadStruct := (\<lambda>p path name. case loadStruct S p path name of
                          (r, p') \<Rightarrow> (map_option (dropExcluded E os) r, p')),
       aliasFields := (\<lambda>p ea. case aliasFields S p ea of
                          (r, p') \<Rightarrow> (map_option (dropExcluded E os) r, p'))\<rparr>"

text \<open>Two outcomes are alike: both return, with results that \<open>R\<close> relates, or both fail alike.\<close>
definition alike :: "('a \<Rightarrow> 'b \<Rightarrow> bool) \<Rightarrow> 'a outcome \<Rightarrow> 'b outcome \<Rightarrow> bool" where
  "alike R out' out =
     (case out of
        Done r \<Rightarrow> (case out' of Done r' \<Rightarrow> R r' r | _ \<Rightarrow> False)
      | Panic e \<Rightarrow> out' = Panic e
      | Unfinished \<Rightarrow> out' = Unfinished)"

text \<open>The state of the build without the excluded fields, next to the state of the build with them.\<close>
definition sameBuild :: "GoEnv \<Rightarrow> Options \<Rightarrow> 'src Builder \<Rightarrow> 'src Builder \<Rightarrow> bool" where
  "sameBuild E os b' b = (b' = dropExcludedB E os b \<and> opts b = os)"

text \<open>The same for a result with its state.\<close>
definition sameResult :: "GoEnv \<Rightarrow> Options \<Rightarrow> 'a \<times> 'src Builder \<Rightarrow> 'a \<times> 'src Builder \<Rightarrow> bool" where
  "sameResult E os r' r = (fst r' = fst r \<and> sameBuild E os (snd r') (snd r))"

text \<open>The resolution of type expressions in the two builds.\<close>
definition sameRte ::
  "GoEnv \<Rightarrow> Options \<Rightarrow> (Expr \<Rightarrow> ('src, wtptr) run) \<Rightarrow> (Expr \<Rightarrow> ('src, wtptr) run) \<Rightarrow> bool" where
  "sameRte E os rte' rte =
     (\<forall>e b. opts b = os \<longrightarrow> alike (sameResult E os) (rte' e (dropExcludedB E os b)) (rte e b))"

text \<open>The outcome of a build, with the excluded fields taken out of the declarations it holds.\<close>
definition erased :: "GoEnv \<Rightarrow> Options \<Rightarrow> ('a \<times> 'src Builder) outcome \<Rightarrow> ('a \<times> 'src Builder) outcome" where
  "erased E os out =
     (case out of
        Done (x, b') \<Rightarrow> Done (x, dropExcludedB E os b')
      | Panic e \<Rightarrow> Panic e
      | Unfinished \<Rightarrow> Unfinished)"

text \<open>The parser, with the excluded fields taken out of the declarations it holds.\<close>
definition dropExcludedP :: "GoEnv \<Rightarrow> Options \<Rightarrow> Parser \<Rightarrow> Parser" where
  "dropExcludedP E os p = p\<lparr>p_RawStructs := map (dropExcludedRaw E os) (p_RawStructs p)\<rparr>"

section \<open>Sample inputs\<close>

text \<open>Concrete declarations, options and states on which the definitions are evaluated.\<close>

definition widgetShell :: WorkingType where
  "widgetShell = zeroWT\<lparr>wt_Name := ''Widget'', wt_Kind := KindStruct\<rparr>"

definition suffixBuilder :: "unit Builder" where
  "suffixBuilder = (NewBuilder (NewOptions\<lparr>Suffix := ''DTO''\<rparr>) [] ())\<lparr>store := (\<lambda>_. widgetShell)\<rparr>"

definition fieldOf :: "string \<Rightarrow> bool \<Rightarrow> wtptr \<Rightarrow> WorkingField" where
  "fieldOf name embedded t = \<lparr>wf_Name = name, wf_RawName = name, wf_Comment = '''',
     wf_Embedded = embedded, wf_Type = t, wf_Tag = '''', wf_RawTag = '''', wf_Omit = False,
     wf_Deprecated = False\<rparr>"

text \<open>
  A struct \<open>Widget\<close> that embeds a shell that was never populated (every address but 2),
  a pointer to a struct, and the struct \<open>Embedded\<close> at address 2, which has a field.
\<close>

definition flattenStore :: store where
  "flattenStore = (\<lambda>_. zeroWT\<lparr>wt_Name := ''Shell'', wt_Kind := KindStruct\<rparr>)
     (2 := zeroWT\<lparr>wt_Name := ''Embedded'', wt_Kind := KindStruct,
                  wt_Fields := [fieldOf ''ID'' False (Node 3)]\<rparr>)"

definition flattenWidget :: WorkingType where
  "flattenWidget = zeroWT\<lparr>wt_Name := ''Widget'', wt_Kind := KindStruct,
     wt_Fields := [fieldOf ''Shell'' True (Node 1), fieldOf ''Embedded'' True (PointerOf (Node 2)),
                   fieldOf ''Name'' False (Node 4), fieldOf ''Embedded'' True (Node 2)]\<rparr>"

definition apiFieldOf :: "string \<Rightarrow> TypeRef \<Rightarrow> string \<Rightarrow> bool \<Rightarrow> ApiField" where
  "apiFieldOf name t rawTag embedded = \<lparr>af_Name = name, af_Type = Some t, af_Tag = '''',
     af_RawTag = rawTag, af_Comment = '''', af_Omit = False, af_IsEmbedded = embedded\<rparr>"

definition plainParser :: Parser where
  "plainParser = \<lparr>p_Opts = NewOptions, p_RawStructs = [], p_ApiStructs = []\<rparr>"

definition dtoParser :: Parser where
  "dtoParser = \<lparr>p_Opts = NewOptions\<lparr>Suffix := ''DTO''\<rparr>, p_RawStructs = [], p_ApiStructs = []\<rparr>"

definition noModel :: "store \<times> addr list" where
  "noModel = ((\<lambda>_. zeroWT), [])"

definition sliceRef :: "TypeRef \<Rightarrow> TypeRef" where
  "sliceRef e = TypeRef '''' '''' False True False (Some e)"

definition ptrRef :: "TypeRef \<Rightarrow> TypeRef" where
  "ptrRef e = TypeRef '''' '''' True False False (Some e)"

definition idField :: ApiField where
  "idField = apiFieldOf ''ID'' (leafRef ''github.com/google/uuid'' ''UUID'')
     ''gorm:\"type:uuid;primaryKey\" json:\"id\"'' False"

definition ageField :: ApiField where
  "ageField = apiFieldOf ''Age'' (leafRef '''' ''int'') ''json:\"age\"'' False"

definition emptyStruct :: "string \<Rightarrow> ApiStruct" where
  "emptyStruct name = \<lparr>as_Name = name, as_Alias = None, as_AliasPtr = None, as_Comment = '''',
     as_Fields = [], as_Imports = {}, as_PkgName = ''''\<rparr>"

definition personStruct :: ApiStruct where
  "personStruct = (emptyStruct ''Person'')\<lparr>as_Fields := [idField, ageField]\<rparr>"

definition widgetsField :: ApiField where
  "widgetsField = apiFieldOf ''Widgets'' (sliceRef (ptrRef (leafRef '''' ''Widget''))) ''json:\"widgets\"'' False"

definition aliasField :: ApiField where
  "aliasField = apiFieldOf ''Widgets'' (leafRef '''' ''Widgets'') ''json:\"widgets\"'' False"

definition aliasModel :: "store \<times> addr list" where
  "aliasModel = ((\<lambda>_. zeroWT)
      (0 := widgetShell,
       1 := zeroWT\<lparr>wt_Name := ''Widgets'', wt_Kind := KindAlias,
                    wt_Underlying := Some (SliceOf (PointerOf (Node 0)))\<rparr>), [0, 1])"

definition patchSliceOfPtr :: "string \<Rightarrow> TypeRef" where
  "patchSliceOfPtr n = TypeRef '''' ''PatchSlice'' True False False
     (Some (TypeRef '''' n True False False (Some (leafRef '''' n))))"

definition noSource :: "unit Source" where
  "noSource = \<lparr>importPath = (\<lambda>_ _. None), probeImports = (\<lambda>p _. (None, p)),
     loadStruct = (\<lambda>p _ _. (None, p)), aliasFields = (\<lambda>p _. (None, p)),
     externalAliases = (\<lambda>_ _. None)\<rparr>"

definition leafNode :: "string \<Rightarrow> WorkingType" where
  "leafNode name = zeroWT\<lparr>wt_Name := name, wt_Kind := KindBuiltin\<rparr>"

text \<open>
  \<open>Box\<close> declares one parameter, \<open>T\<close>; its fields have the types \<open>T\<close> and \<open>[]T1\<close>.
\<close>
definition boxBuilder :: "unit Builder" where
  "boxBuilder = (NewBuilder NewOptions [] ())
     \<lparr>store := (\<lambda>_. zeroWT)
        (0 := zeroWT\<lparr>wt_Name := ''Box'', wt_Kind := KindStruct, wt_TypeParams := [''T''],
                     wt_Fields := [fieldOf ''Value'' False (Node 1),
                                   fieldOf ''Others'' False (SliceOf (Node 2))]\<rparr>,
         1 := leafNode ''T'', 2 := leafNode ''T1'', 3 := leafNode ''int'', 4 := leafNode ''string''),
      nextAddr := 5\<rparr>"

text \<open>An external struct: no type parameter is recorded for it.\<close>
definition extBuilder :: "unit Builder" where
  "extBuilder = (NewBuilder NewOptions [] ())
     \<lparr>store := (\<lambda>_. zeroWT)
        (0 := zeroWT\<lparr>wt_Name := ''AuditModel'', wt_PkgPath := ''example.com/model'',
                     wt_Kind := KindStruct, wt_IsExternal := True,
                     wt_Fields := [fieldOf ''ID'' False (Node 1)]\<rparr>,
         1 := leafNode ''T'', 2 := leafNode ''int''),
      nextAddr := 3\<rparr>"




definition testEmbeddedRaws :: "string \<Rightarrow> RawStruct list" where
  "testEmbeddedRaws comment =
     [\<lparr>rs_Name = ''TestEmbedded'', rs_Alias = None, rs_AliasPtr = None, rs_Comment = comment,
       rs_TypeParams = [],
       rs_Fields = [\<lparr>rf_Name = ''ID'', rf_Comment = '''', rf_TypeExpr = SelectorExpr (Ident ''uuid'') ''UUID'',
                      rf_TagLit = Some ([CHR 0x60] @ ''gorm:\"primary_key\" json:\"id\"'' @ [CHR 0x60]),
                      rf_IsExport = True, rf_IsEmbedded = False\<rparr>],
       rs_PkgPath = ''example.com/canonical''\<rparr>]"

definition excludeTypeOpts :: Options where
  "excludeTypeOpts = NewOptions\<lparr>FlattenEmbedded := True, IncludeEmbedded := False,
     ExcludeTypes := [''TestEmbedded'']\<rparr>"

definition excludeDeprecatedOpts :: Options where
  "excludeDeprecatedOpts = NewOptions\<lparr>FlattenEmbedded := True, IncludeEmbedded := False,
     ExcludeDeprecated := True\<rparr>"

text \<open>A struct with a field that the rule \<^verbatim>\<open>dto:-\<close> excludes.\<close>

definition excludeTagOpts :: Options where
  "excludeTagOpts = NewOptions\<lparr>ExcludeByTags := [\<lparr>Key = ''dto'', Value = ''-''\<rparr>]\<rparr>"

definition secretField :: RawField where
  "secretField = \<lparr>rf_Name = ''Secret'', rf_Comment = '''', rf_TypeExpr = Ident ''Vault'',
     rf_TagLit = Some ([CHR 0x60] @ ''json:\"secret\" dto:\"x;-\"'' @ [CHR 0x60]),
     rf_IsExport = True, rf_IsEmbedded = False\<rparr>"

definition accountRaws :: "RawStruct list" where
  "accountRaws =
     [\<lparr>rs_Name = ''Account'', rs_Alias = None, rs_AliasPtr = None, rs_Comment = '''',
       rs_TypeParams = [],
       rs_Fields = [\<lparr>rf_Name = ''Name'', rf_Comment = '''', rf_TypeExpr = Ident ''string'',
                      rf_TagLit = Some ([CHR 0x60] @ ''json:\"name\"'' @ [CHR 0x60]),
                      rf_IsExport = True, rf_IsEmbedded = False\<rparr>, secretField],
       rs_PkgPath = ''example.com/app''\<rparr>]"

definition accountBuilder :: "unit Builder" where
  "accountBuilder = NewBuilder excludeTagOpts accountRaws ()"

text \<open>Fields with the read-only mark, the create-only mark and the older primary-key spelling,
  and an embedded wrapper.\<close>

definition viewsField :: ApiField where
  "viewsField = apiFieldOf ''Views'' (leafRef '''' ''int'') ''gorm:\"->\" json:\"views\"'' False"

definition createdField :: ApiField where
  "createdField = apiFieldOf ''Created'' (leafRef ''time'' ''Time'')
     ''gorm:\"column:created; <-:create\" json:\"created\"'' False"

definition keyField :: ApiField where
  "keyField = apiFieldOf ''Key'' (leafRef '''' ''string'') ''gorm:\"primary_key\" json:\"key\"'' False"

definition embeddedField :: ApiField where
  "embeddedField = apiFieldOf ''Embedded'' (leafRef '''' ''Embedded'') ''json:\"embedded\"'' True"

section \<open>Facts about tags\<close>

lemma LookupFrom_Nil: "LookupFrom n E [] key = None"
  by (cases n) simp_all

lemma Lookup_Nil: "Lookup E [] key = None"
  by (simp add: Lookup_def)

lemma TrimSpace_Nil: "TrimSpace E [] = []"
  by (simp add: TrimSpace_def isASCII_def)

text \<open>\<^verbatim>\<open>isGormReadOnly\<close> is the test for a mark of the convention.\<close>

lemma isGormReadOnly_marks: "isGormReadOnly E tag = marksImmutable E tag"
proof (cases "Lookup E tag ''gorm''")
  case None
  then show ?thesis by (simp add: isGormReadOnly_def marksImmutable_def Get_def)
next
  case (Some v)
  then have ne: "tag \<noteq> []" by (auto simp: Lookup_Nil)
  show ?thesis
  proof (cases "v = []")
    case True
    with Some ne show ?thesis
      by (simp add: isGormReadOnly_def marksImmutable_def Get_def immutableMarks_def TrimSpace_Nil)
  next
    case False
    with Some ne show ?thesis
      by (simp add: isGormReadOnly_def marksImmutable_def Get_def immutableMarks_def Let_def)
  qed
qed

lemma EqualFold_mark: "m \<in> set immutableMarks \<Longrightarrow> EqualFold E m m"
  by (auto simp: immutableMarks_def EqualFold_def isASCII_def)

lemma marks_spells: "marksImmutable E tag \<Longrightarrow> spellsImmutable E tag"
  by (auto simp: marksImmutable_def spellsImmutable_def list_ex_iff split: option.splits
      intro: EqualFold_mark)

section \<open>Configuration: flatten-embedded against include-embedded\<close>

lemma Normalize_flags:
  assumes "Normalize E o0 ss = Inr o'"
  shows "FlattenEmbedded o' = FlattenEmbedded o0 \<and> IncludeEmbedded o' = IncludeEmbedded o0
         \<and> FlattenEmbedded o0 \<noteq> IncludeEmbedded o0"
  using assms
  by (auto simp: Normalize_def Let_def split: sum.splits if_splits)

lemma Normalize_panics:
  assumes "FlattenEmbedded o0 = IncludeEmbedded o0"
  shows "\<exists>e. Normalize E o0 ss = Inl e"
  using assms
  by (auto simp: Normalize_def Let_def split: sum.splits)

text \<open>
  C4. Whatever the configuration and the tag-filter strings, a configuration that
  \<^verbatim>\<open>Normalize\<close> returns has exactly one of flatten-embedded and include-embedded set;
  on a configuration with both set, or with neither set, \<^verbatim>\<open>Normalize\<close> panics and
  returns nothing.
\<close>

theorem C4_exactly_one_embedding_mode:
  "(FlattenEmbedded o0 = IncludeEmbedded o0 \<longrightarrow> (\<exists>e. Normalize E o0 ss = Inl e)) \<and>
   (\<forall>o'. Normalize E o0 ss = Inr o' \<longrightarrow>
      (FlattenEmbedded o' \<and> \<not> IncludeEmbedded o') \<or> (\<not> FlattenEmbedded o' \<and> IncludeEmbedded o'))"
proof (intro conjI impI allI)
  assume "FlattenEmbedded o0 = IncludeEmbedded o0"
  then show "\<exists>e. Normalize E o0 ss = Inl e" by (rule Normalize_panics)
next
  fix o' assume "Normalize E o0 ss = Inr o'"
  from Normalize_flags [OF this]
  show "(FlattenEmbedded o' \<and> \<not> IncludeEmbedded o') \<or> (\<not> FlattenEmbedded o' \<and> IncludeEmbedded o')"
    by auto
qed

theorem C4_exactly_one_embedding_mode_witness:
  "(\<exists>e. Normalize asciiEnv (NewOptions\<lparr>FlattenEmbedded := True\<rparr>) [''dto:-''] = Inl e) \<and>
   (\<exists>e. Normalize asciiEnv (NewOptions\<lparr>IncludeEmbedded := False\<rparr>) [''dto:-''] = Inl e) \<and>
   (\<exists>o'. Normalize asciiEnv (NewOptions\<lparr>OutDir := ''api''\<rparr>) [''dto:-''] = Inr o' \<and>
      \<not> FlattenEmbedded o' \<and> IncludeEmbedded o')"
proof -
  have a: "FlattenEmbedded (NewOptions\<lparr>FlattenEmbedded := True\<rparr>)
           = IncludeEmbedded (NewOptions\<lparr>FlattenEmbedded := True\<rparr>)"
    by (simp add: NewOptions_def)
  have b: "FlattenEmbedded (NewOptions\<lparr>IncludeEmbedded := False\<rparr>)
           = IncludeEmbedded (NewOptions\<lparr>IncludeEmbedded := False\<rparr>)"
    by (simp add: NewOptions_def)
  have c: "\<exists>o'. Normalize asciiEnv (NewOptions\<lparr>OutDir := ''api''\<rparr>) [''dto:-''] = Inr o'"
    by (simp add: Normalize_def NewOptions_def Let_def)
  then obtain o' where o': "Normalize asciiEnv (NewOptions\<lparr>OutDir := ''api''\<rparr>) [''dto:-''] = Inr o'"
    by blast
  have d: "\<not> FlattenEmbedded o'"
    using o' by (auto simp: Normalize_def NewOptions_def Let_def split: if_splits)
  from C4_exactly_one_embedding_mode [of "NewOptions\<lparr>FlattenEmbedded := True\<rparr>" asciiEnv "[''dto:-'']"]
       C4_exactly_one_embedding_mode [of "NewOptions\<lparr>IncludeEmbedded := False\<rparr>" asciiEnv "[''dto:-'']"]
       C4_exactly_one_embedding_mode [of "NewOptions\<lparr>OutDir := ''api''\<rparr>" asciiEnv "[''dto:-'']"]
       a b o' d
  show ?thesis by auto
qed

section \<open>The suffix pass\<close>

lemma HasSuffix_append: "HasSuffix (s @ x) x"
  by (simp add: HasSuffix_def)

lemma applySuffix_idem: "applySuffix os (applySuffix os wt) = applySuffix os wt"
  by (simp add: applySuffix_def)

lemma applySuffix_name:
  "wt_Name (applySuffix os wt) =
     (if wt_NameResolved wt \<or> Suffix os = '''' \<or> HasSuffix (wt_Name wt) (Suffix os)
      then wt_Name wt else wt_Name wt @ Suffix os)"
  by (simp add: applySuffix_def)

lemma modify_store_same: "store (modify a f b) a = f (store b a)"
  by (simp add: modify_def)

lemma modify_opts: "opts (modify a f b) = opts b"
  by (simp add: modify_def)

lemma name_filterDeprecated: "wt_Name (filterDeprecated os wt) = wt_Name wt"
  by (simp add: filterDeprecated_def)

lemma name_flattenEmbedded: "wt_Name (flattenEmbedded os h wt) = wt_Name wt"
  by (simp add: flattenEmbedded_def)

lemma name_flattenTagEmbedded: "wt_Name (flattenTagEmbedded E os h wt) = wt_Name wt"
  by (simp add: flattenTagEmbedded_def)

lemma name_dedupeFields: "wt_Name (dedupeFields wt) = wt_Name wt"
  by (simp add: dedupeFields_def)

lemma nr_filterDeprecated: "wt_NameResolved (filterDeprecated os wt) = wt_NameResolved wt"
  by (simp add: filterDeprecated_def)

lemma nr_flattenEmbedded: "wt_NameResolved (flattenEmbedded os h wt) = wt_NameResolved wt"
  by (simp add: flattenEmbedded_def)

lemma nr_flattenTagEmbedded: "wt_NameResolved (flattenTagEmbedded E os h wt) = wt_NameResolved wt"
  by (simp add: flattenTagEmbedded_def)

lemma nr_dedupeFields: "wt_NameResolved (dedupeFields wt) = wt_NameResolved wt"
  by (simp add: dedupeFields_def)

lemmas pass_names = name_filterDeprecated name_flattenEmbedded name_flattenTagEmbedded
  name_dedupeFields nr_filterDeprecated nr_flattenEmbedded nr_flattenTagEmbedded nr_dedupeFields

lemma applyTransformations_opts: "opts (applyTransformations E a b) = opts b"
  by (simp add: applyTransformations_def Let_def modify_opts)

text \<open>
  After the passes, the name and the name-resolved mark of the node are untouched (and the
  node is omitted), or they are as the suffix pass leaves them.
\<close>

lemma applyTransformations_name:
  "(wt_Name (store (applyTransformations E a b) a) = wt_Name (store b a) \<and>
    wt_NameResolved (store (applyTransformations E a b) a) = wt_NameResolved (store b a) \<and>
    (wt_Omit (store (applyTransformations E a b) a)))
   \<or>
   (wt_Name (store (applyTransformations E a b) a) = wt_Name (applySuffix (opts b) (store b a)) \<and>
    wt_NameResolved (store (applyTransformations E a b) a)
      = wt_NameResolved (applySuffix (opts b) (store b a)))"
  by (simp add: applyTransformations_def Let_def modify_opts modify_store_same pass_names applySuffix_def)

lemma applyTransformations_omitted:
  "wt_Omit (store b a) \<Longrightarrow> applyTransformations E a b = b"
  by (simp add: applyTransformations_def)

lemma applyTransformations_twice_name:
  "wt_Name (store (applyTransformations E a (applyTransformations E a b)) a)
   = wt_Name (store (applyTransformations E a b) a)"
proof -
  let ?b1 = "applyTransformations E a b"
  from applyTransformations_name [of E a b]
  show ?thesis
  proof
    assume "wt_Name (store ?b1 a) = wt_Name (store b a) \<and>
            wt_NameResolved (store ?b1 a) = wt_NameResolved (store b a) \<and> wt_Omit (store ?b1 a)"
    then show ?thesis by (simp add: applyTransformations_omitted)
  next
    assume h: "wt_Name (store ?b1 a) = wt_Name (applySuffix (opts b) (store b a)) \<and>
       wt_NameResolved (store ?b1 a) = wt_NameResolved (applySuffix (opts b) (store b a))"
    from applyTransformations_name [of E a ?b1] h
    show ?thesis
      by (auto simp: applyTransformations_opts applySuffix_def HasSuffix_append split: if_splits)
  qed
qed

text \<open>
  C5. With a suffix \<open>S\<close> that is not empty, and a type that the suffix pass has not yet
  marked as name-resolved (as every type is until the pass reaches it): after the pass the
  name ends with \<open>S\<close>; it is the old name when that already ended with \<open>S\<close>, and the
  old name followed by \<open>S\<close> once otherwise; the pass applied twice gives the same type
  as applied once; and the whole pipeline run twice over a node leaves it the name that
  one run gives.
\<close>

theorem C5_suffix_idempotent:
  assumes "Suffix (opts b) \<noteq> ''''" and "\<not> wt_NameResolved (store b a)"
  shows "HasSuffix (wt_Name (applySuffix (opts b) (store b a))) (Suffix (opts b)) \<and>
         wt_Name (applySuffix (opts b) (store b a)) =
           (if HasSuffix (wt_Name (store b a)) (Suffix (opts b)) then wt_Name (store b a)
            else wt_Name (store b a) @ Suffix (opts b)) \<and>
         applySuffix (opts b) (applySuffix (opts b) (store b a)) = applySuffix (opts b) (store b a) \<and>
         wt_Name (store (applyTransformations E a (applyTransformations E a b)) a)
           = wt_Name (store (applyTransformations E a b) a)"
  using assms
  by (auto simp: applySuffix_idem applySuffix_name HasSuffix_append applyTransformations_twice_name)

theorem C5_suffix_idempotent_witness:
  "wt_Name (applySuffix (opts suffixBuilder) (store suffixBuilder 0)) = ''WidgetDTO'' \<and>
   wt_Name (applySuffix (opts suffixBuilder)
              (applySuffix (opts suffixBuilder) (store suffixBuilder 0))) = ''WidgetDTO'' \<and>
   wt_Name (store (applyTransformations asciiEnv 0 (applyTransformations asciiEnv 0 suffixBuilder)) 0)
     = wt_Name (store (applyTransformations asciiEnv 0 suffixBuilder) 0)"
proof -
  have a: "Suffix (opts suffixBuilder) \<noteq> ''''"
    by (simp add: suffixBuilder_def NewBuilder_def NewOptions_def)
  have b: "\<not> wt_NameResolved (store suffixBuilder 0)"
    by (simp add: suffixBuilder_def widgetShell_def zeroWT_def)
  have c: "\<not> HasSuffix (wt_Name (store suffixBuilder 0)) (Suffix (opts suffixBuilder))"
    by (simp add: suffixBuilder_def NewBuilder_def NewOptions_def widgetShell_def zeroWT_def
        HasSuffix_def)
  have d: "wt_Name (store suffixBuilder 0) @ Suffix (opts suffixBuilder) = ''WidgetDTO''"
    by (simp add: suffixBuilder_def NewBuilder_def NewOptions_def widgetShell_def zeroWT_def)
  from C5_suffix_idempotent [OF a b, of asciiEnv] c d show ?thesis by simp
qed

section \<open>Flattening embedded fields\<close>

lemma flattenEmbeddedLoop_concat:
  assumes "FlattenEmbedded os"
  shows "flattenEmbeddedLoop os h out fs =
         out @ concat (map (\<lambda>f. if wf_Embedded f
                                  then (if hasFieldsToInline h f then wt_Fields (deref h (wf_Type f)) else [])
                                  else [f]) fs)"
  using assms by (induction fs arbitrary: out) auto

text \<open>
  C10. In flatten mode the structural pass leaves, of a struct's fields, every field that
  is not embedded where it was, and puts in the place of every embedded field the fields
  of its type when that type is a struct with fields, and nothing at all otherwise: the
  wrapper itself is never kept.
\<close>

theorem C10_flatten_drops_every_wrapper:
  assumes "FlattenEmbedded os" and "wt_Kind wt = KindStruct"
  shows "wt_Fields (flattenEmbedded os h wt) =
         concat (map (\<lambda>f. if wf_Embedded f
                           then (if wt_Kind (deref h (wf_Type f)) = KindStruct
                                    \<and> wt_Fields (deref h (wf_Type f)) \<noteq> []
                                 then wt_Fields (deref h (wf_Type f)) else [])
                           else [f]) (wt_Fields wt))"
  using assms
  by (simp add: flattenEmbedded_def flattenEmbeddedLoop_concat hasFieldsToInline_def cong: if_cong)

theorem C10_flatten_drops_every_wrapper_witness:
  "wt_Fields (flattenEmbedded (NewOptions\<lparr>FlattenEmbedded := True, IncludeEmbedded := False\<rparr>)
                flattenStore flattenWidget)
   = [fieldOf ''Name'' False (Node 4), fieldOf ''ID'' False (Node 3)]"
proof -
  have a: "FlattenEmbedded (NewOptions\<lparr>FlattenEmbedded := True, IncludeEmbedded := False\<rparr>)"
    by simp
  have b: "wt_Kind flattenWidget = KindStruct"
    by (simp add: flattenWidget_def)
  from C10_flatten_drops_every_wrapper [OF a b, of flattenStore]
  show ?thesis
    by (simp add: flattenWidget_def flattenStore_def fieldOf_def zeroWT_def)
qed

section \<open>Patch synthesis\<close>

lemma patchFieldsLoop_fields:
  "as_Fields (patchFieldsLoop E p wm patch fs) =
     as_Fields patch @ map (patchField E p wm) (filter (\<lambda>f. \<not> af_Omit f) fs)"
  by (induction fs arbitrary: patch) (auto simp: Let_def)

text \<open>
  C1, as amended. The fields of a synthesized Patch struct are the patch fields of the base
  struct's fields that are not omitted, in order. A field whose raw tag marks it read-only,
  create-only or primary key keeps its type. For a field whose raw tag spells no mark at
  all: an embedded wrapper gets a pointer to its type with the patch suffix on the name of
  the innermost element; a field that is not an embedded wrapper and whose type is a scalar
  (it is not a collection, the working model has no alias of a collection under its name,
  and no raw declaration under its name is an alias) gets its type wrapped in one more
  pointer.
\<close>

theorem C1_patch_scalar_and_read_only:
  "as_Fields (patchFieldsLoop E p wm patch (as_Fields base)) =
     as_Fields patch @ map (patchField E p wm) (filter (\<lambda>f. \<not> af_Omit f) (as_Fields base)) \<and>
   (marksImmutable E (af_RawTag f) \<longrightarrow> af_Type (patchField E p wm f) = af_Type f) \<and>
   (\<not> spellsImmutable E (af_RawTag f) \<and> \<not> af_IsEmbedded f \<and> af_Type f = Some t \<and>
      \<not> IsSlice t \<and> resolveAliasSliceElem wm (Some t) = None \<and>
      (case Find (p_RawStructs p) (Name t) of None \<Rightarrow> True | Some raw \<Rightarrow> rs_Alias raw = None)
    \<longrightarrow> af_Type (patchField E p wm f) = Some (TypeRef '''' '''' True False False (Some t))) \<and>
   (\<not> spellsImmutable E (af_RawTag f) \<and> af_IsEmbedded f \<and> af_Type f = Some t
    \<longrightarrow> af_Type (patchField E p wm f) =
          Some (TypeRef '''' '''' True False False
                  (Some (suffixLeaf (PatchSuffix (p_Opts p)) (cloneTypeRef t)))))"
proof -
  have ro: "af_Type (patchField E p wm f) = af_Type f" if "marksImmutable E (af_RawTag f)"
    using that by (simp add: patchField_def isGormReadOnly_marks)
  have nro: "\<not> isGormReadOnly E (af_RawTag f)" if "\<not> spellsImmutable E (af_RawTag f)"
    using that marks_spells [of E "af_RawTag f"] by (auto simp: isGormReadOnly_marks)
  have sc: "af_Type (patchField E p wm f) = Some (TypeRef '''' '''' True False False (Some t))"
    if "\<not> spellsImmutable E (af_RawTag f)" "\<not> af_IsEmbedded f" "af_Type f = Some t"
       "\<not> IsSlice t" "resolveAliasSliceElem wm (Some t) = None"
       "case Find (p_RawStructs p) (Name t) of None \<Rightarrow> True | Some raw \<Rightarrow> rs_Alias raw = None"
  proof -
    from that(4-6) have "patchBaseElem p wm t = None"
      by (auto simp: patchBaseElem_def split: option.splits)
    with that(2,3) nro [OF that(1)] show ?thesis
      by (simp add: patchField_def buildPatchSliceFieldType_def pointerizeTypeRef_def)
  qed
  have em: "af_Type (patchField E p wm f) =
          Some (TypeRef '''' '''' True False False
                  (Some (suffixLeaf (PatchSuffix (p_Opts p)) (cloneTypeRef t))))"
    if "\<not> spellsImmutable E (af_RawTag f)" "af_IsEmbedded f" "af_Type f = Some t"
    using that(2,3) nro [OF that(1)]
    by (simp add: patchField_def pointerizePatchStructType_def pointerizeTypeRef_def)
  from ro sc em show ?thesis
    by (simp add: patchFieldsLoop_fields)
qed

lemmas tag_eval = isGormReadOnly_def Get_def Lookup_def Let_def nameChar_def Unquote_def
        isASCII_def TrimSpace_def asciiSpace_def

theorem C1_patch_scalar_and_read_only_witness:
  "af_Type (patchField asciiEnv plainParser noModel idField) = Some (leafRef ''github.com/google/uuid'' ''UUID'') \<and>
   af_Type (patchField asciiEnv plainParser noModel viewsField) = Some (leafRef '''' ''int'') \<and>
   af_Type (patchField asciiEnv plainParser noModel createdField) = Some (leafRef ''time'' ''Time'') \<and>
   af_Type (patchField asciiEnv plainParser noModel ageField) = Some (ptrRef (leafRef '''' ''int'')) \<and>
   af_Type (patchField asciiEnv plainParser noModel embeddedField)
     = Some (ptrRef (leafRef '''' ''EmbeddedPatch'')) \<and>
   map af_Type (as_Fields (patchFieldsLoop asciiEnv plainParser noModel (emptyStruct ''PersonPatch'')
                   (as_Fields personStruct)))
     = [Some (leafRef ''github.com/google/uuid'' ''UUID''), Some (ptrRef (leafRef '''' ''int''))]"
proof -
  have ro: "marksImmutable asciiEnv (af_RawTag idField)"
           "marksImmutable asciiEnv (af_RawTag viewsField)"
           "marksImmutable asciiEnv (af_RawTag createdField)"
    by code_simp+
  have nro: "\<not> spellsImmutable asciiEnv (af_RawTag ageField)"
            "\<not> spellsImmutable asciiEnv (af_RawTag embeddedField)"
    by code_simp+
  have sc: "\<not> IsSlice (leafRef '''' ''int'')"
           "resolveAliasSliceElem noModel (Some (leafRef '''' ''int'')) = None"
           "case Find (p_RawStructs plainParser) (Name (leafRef '''' ''int'')) of
              None \<Rightarrow> True | Some raw \<Rightarrow> rs_Alias raw = None"
    by (simp_all add: leafRef_def resolveAliasSliceElem_def noModel_def plainParser_def Find_def)
  have ty: "af_Type ageField = Some (leafRef '''' ''int'')" "\<not> af_IsEmbedded ageField"
           "af_Type idField = Some (leafRef ''github.com/google/uuid'' ''UUID'')"
           "af_Type viewsField = Some (leafRef '''' ''int'')"
           "af_Type createdField = Some (leafRef ''time'' ''Time'')"
           "af_Type embeddedField = Some (leafRef '''' ''Embedded'')" "af_IsEmbedded embeddedField"
    by (simp_all add: ageField_def idField_def viewsField_def createdField_def embeddedField_def
          apiFieldOf_def)
  have sl: "suffixLeaf (PatchSuffix (p_Opts plainParser)) (cloneTypeRef (leafRef '''' ''Embedded''))
            = leafRef '''' ''EmbeddedPatch''"
    by (simp add: plainParser_def NewOptions_def leafRef_def HasSuffix_def)
  have fs: "filter (\<lambda>f. \<not> af_Omit f) (as_Fields personStruct) = [idField, ageField]"
    by (simp add: personStruct_def emptyStruct_def idField_def ageField_def apiFieldOf_def)
  have e: "as_Fields (emptyStruct ''PersonPatch'') = []"
    by (simp add: emptyStruct_def)
  note inst = C1_patch_scalar_and_read_only
         [where E = asciiEnv and p = plainParser and wm = noModel
            and patch = "emptyStruct ''PersonPatch''" and base = personStruct]
  from inst [where f = idField and t = "leafRef '''' ''int''"] ro ty
  have 1: "af_Type (patchField asciiEnv plainParser noModel idField) = Some (leafRef ''github.com/google/uuid'' ''UUID'')"
    by simp
  from inst [where f = viewsField and t = "leafRef '''' ''int''"] ro ty
  have 2: "af_Type (patchField asciiEnv plainParser noModel viewsField) = Some (leafRef '''' ''int'')"
    by simp
  from inst [where f = createdField and t = "leafRef '''' ''int''"] ro ty
  have 3: "af_Type (patchField asciiEnv plainParser noModel createdField) = Some (leafRef ''time'' ''Time'')"
    by simp
  from inst [where f = ageField and t = "leafRef '''' ''int''"] nro sc ty
  have 4: "af_Type (patchField asciiEnv plainParser noModel ageField) = Some (ptrRef (leafRef '''' ''int''))"
    by (simp add: ptrRef_def)
  from inst [where f = embeddedField and t = "leafRef '''' ''Embedded''"] nro ty sl
  have 5: "af_Type (patchField asciiEnv plainParser noModel embeddedField)
             = Some (ptrRef (leafRef '''' ''EmbeddedPatch''))"
    by (simp add: ptrRef_def)
  from inst [where f = idField and t = "leafRef '''' ''int''"]
  have 6: "as_Fields (patchFieldsLoop asciiEnv plainParser noModel (emptyStruct ''PersonPatch'')
                   (as_Fields personStruct))
        = as_Fields (emptyStruct ''PersonPatch'') @ map (patchField asciiEnv plainParser noModel)
            (filter (\<lambda>f. \<not> af_Omit f) (as_Fields personStruct))"
    by simp
  from 1 2 3 4 5 6 show ?thesis by (simp add: fs e)
qed

text \<open>
  C1 as stated fails for an embedded wrapper: \<open>Embedded\<close> is not read-only and is a
  scalar, and its patch type is a pointer to \<open>EmbeddedPatch\<close>, not to \<open>Embedded\<close>.
\<close>

theorem C1_counterexample:
  "\<not> isGormReadOnly asciiEnv (af_RawTag (apiFieldOf ''Embedded'' (leafRef '''' ''Embedded'') '''' True)) \<and>
   patchBaseElem plainParser noModel (leafRef '''' ''Embedded'') = None \<and>
   af_Type (patchField asciiEnv plainParser noModel
              (apiFieldOf ''Embedded'' (leafRef '''' ''Embedded'') '''' True))
     = Some (ptrRef (leafRef '''' ''EmbeddedPatch'')) \<and>
   af_Type (patchField asciiEnv plainParser noModel
              (apiFieldOf ''Embedded'' (leafRef '''' ''Embedded'') '''' True))
     \<noteq> Some (ptrRef (leafRef '''' ''Embedded''))"
  by (simp add: isGormReadOnly_def apiFieldOf_def patchBaseElem_def leafRef_def ptrRef_def
        resolveAliasSliceElem_def noModel_def plainParser_def Find_def patchField_def
        pointerizePatchStructType_def pointerizeTypeRef_def NewOptions_def HasSuffix_def)

text \<open>
  The older spelling \<^verbatim>\<open>primary_key\<close> of the primary-key mark, which the fixture of the
  repository's test uses for \<^verbatim>\<open>ID\<close> and \<^verbatim>\<open>Key\<close>, is not one of the marks that
  \<^verbatim>\<open>isGormReadOnly\<close> knows: such a field is treated as any other scalar.
\<close>

lemma primary_key_spelling:
  "spellsImmutable asciiEnv (af_RawTag keyField) \<and>
   \<not> isGormReadOnly asciiEnv (af_RawTag keyField) \<and>
   af_Type (patchField asciiEnv plainParser noModel keyField) = Some (ptrRef (leafRef '''' ''string''))"
  by code_simp

lemma aliasSliceElemLoop_Some:
  "aliasSliceElemLoop h wts t = Some e \<Longrightarrow>
   \<exists>a u elem. a \<in> set wts \<and> wt_Name (h a) = Name t \<and> wt_Kind (h a) = KindAlias \<and>
      wt_Underlying (h a) = Some u \<and> wt_Kind (deref h u) = KindSlice \<and>
      wt_Underlying (deref h u) = Some elem \<and> e = workingTypeToTypeRef h elem"
  by (induction wts) (auto split: if_splits option.splits Kind.splits bool.splits)

lemma IsPtr_workingTypeToTypeRef:
  "IsPtr (workingTypeToTypeRef h e) \<longleftrightarrow> (\<exists>u. e = PointerOf u)"
  by (cases e) (auto simp: leafRef_def)

text \<open>
  C2, as amended. A field that is neither read-only nor embedded, and whose type is a
  collection with element \<open>elem\<close>, or is not a collection and names an alias of a
  collection with element \<open>elem\<close> in the working model, gets the type pointer to
  \<open>PatchSlice\<close> of an element named after \<open>elem\<close> (after what \<open>elem\<close> points to, when
  it is a pointer): that name, followed by the type-name suffix when one is configured and
  the name does not end with it, followed by the patch suffix. The element of the wrapper
  is a pointer exactly when \<open>elem\<close> is, and for an alias \<open>elem\<close> is a pointer exactly
  when the element of the alias's collection is.
\<close>

theorem C2_patch_collection:
  assumes "\<not> isGormReadOnly E (af_RawTag f)" and "\<not> af_IsEmbedded f" and "af_Type f = Some t"
    and "(IsSlice t \<and> Elem t = Some elem) \<or>
         (\<not> IsSlice t \<and> resolveAliasSliceElem wm (Some t) = Some elem)"
  shows "af_Type (patchField E p wm f) =
           Some (TypeRef '''' ''PatchSlice'' True False False
             (Some (let n = resolveName p (Name (case (IsPtr elem, Elem elem) of
                                                  (True, Some e) \<Rightarrow> e | _ \<Rightarrow> elem))
                            @ PatchSuffix (p_Opts p)
                    in if IsPtr elem
                       then TypeRef '''' n True False False (Some (leafRef '''' n))
                       else leafRef '''' n))) \<and>
         (\<not> IsSlice t \<longrightarrow>
            (\<exists>a u e. a \<in> set (snd wm) \<and> wt_Name (fst wm a) = Name t \<and> wt_Kind (fst wm a) = KindAlias \<and>
               wt_Underlying (fst wm a) = Some u \<and> wt_Kind (deref (fst wm) u) = KindSlice \<and>
               wt_Underlying (deref (fst wm) u) = Some e \<and> elem = workingTypeToTypeRef (fst wm) e \<and>
               (IsPtr elem \<longleftrightarrow> (\<exists>x. e = PointerOf x))))"
proof -
  have be: "patchBaseElem p wm t = Some elem"
    using assms(4) by (auto simp: patchBaseElem_def)
  have 1: "af_Type (patchField E p wm f) = buildPatchSliceFieldType p wm (Some t)"
    using assms(1-3) by (simp add: patchField_def)
  have 2: ?thesis if "IsSlice t"
    using that 1 be by (simp add: buildPatchSliceFieldType_def Let_def resolveName_def)
  have 3: ?thesis if ns: "\<not> IsSlice t"
  proof -
    from ns assms(4) have "resolveAliasSliceElem wm (Some t) = Some elem" by simp
    then have "aliasSliceElemLoop (fst wm) (snd wm) t = Some elem"
      by (simp add: resolveAliasSliceElem_def split: if_splits)
    from aliasSliceElemLoop_Some [OF this] IsPtr_workingTypeToTypeRef [of "fst wm"]
    have "\<exists>a u e. a \<in> set (snd wm) \<and> wt_Name (fst wm a) = Name t \<and> wt_Kind (fst wm a) = KindAlias \<and>
               wt_Underlying (fst wm a) = Some u \<and> wt_Kind (deref (fst wm) u) = KindSlice \<and>
               wt_Underlying (deref (fst wm) u) = Some e \<and> elem = workingTypeToTypeRef (fst wm) e \<and>
               (IsPtr elem \<longleftrightarrow> (\<exists>x. e = PointerOf x))"
      by blast
    with 1 be show ?thesis
      by (simp add: buildPatchSliceFieldType_def Let_def resolveName_def)
  qed
  from 2 3 show ?thesis by blast
qed

text \<open>
  C2 as stated fails when a type-name suffix is configured: with the suffix \<open>DTO\<close>, the
  field \<^verbatim>\<open>Tags []string\<close> gets the element \<open>stringDTOPatch\<close>, which is not the
  element's name followed by the patch suffix.
\<close>

theorem C2_counterexample:
  "\<not> isGormReadOnly asciiEnv (af_RawTag (apiFieldOf ''Tags'' (sliceRef (leafRef '''' ''string'')) ''json:\"tags\"'' False)) \<and>
   af_Type (patchField asciiEnv dtoParser noModel
              (apiFieldOf ''Tags'' (sliceRef (leafRef '''' ''string'')) ''json:\"tags\"'' False))
     = Some (TypeRef '''' ''PatchSlice'' True False False (Some (leafRef '''' ''stringDTOPatch''))) \<and>
   af_Type (patchField asciiEnv dtoParser noModel
              (apiFieldOf ''Tags'' (sliceRef (leafRef '''' ''string'')) ''json:\"tags\"'' False))
     \<noteq> Some (TypeRef '''' ''PatchSlice'' True False False
               (Some (leafRef '''' (''string'' @ PatchSuffix (p_Opts dtoParser)))))"
  by (simp add: apiFieldOf_def tag_eval patchField_def buildPatchSliceFieldType_def
        patchBaseElem_def sliceRef_def leafRef_def dtoParser_def NewOptions_def resolveName_def
        HasSuffix_def)

theorem C2_patch_collection_witness:
  "af_Type (patchField asciiEnv plainParser noModel widgetsField) = Some (patchSliceOfPtr ''WidgetPatch'') \<and>
   af_Type (patchField asciiEnv plainParser aliasModel aliasField) = Some (patchSliceOfPtr ''WidgetPatch'')"
proof -
  have nro: "\<not> isGormReadOnly asciiEnv (af_RawTag widgetsField)"
            "\<not> isGormReadOnly asciiEnv (af_RawTag aliasField)"
    by (simp_all add: widgetsField_def aliasField_def apiFieldOf_def tag_eval)
  have ne: "\<not> af_IsEmbedded widgetsField" "\<not> af_IsEmbedded aliasField"
    by (simp_all add: widgetsField_def aliasField_def apiFieldOf_def)
  have ty: "af_Type widgetsField = Some (sliceRef (ptrRef (leafRef '''' ''Widget'')))"
           "af_Type aliasField = Some (leafRef '''' ''Widgets'')"
    by (simp_all add: widgetsField_def aliasField_def apiFieldOf_def)
  have c1: "(IsSlice (sliceRef (ptrRef (leafRef '''' ''Widget''))) \<and>
             Elem (sliceRef (ptrRef (leafRef '''' ''Widget''))) = Some (ptrRef (leafRef '''' ''Widget''))) \<or>
            (\<not> IsSlice (sliceRef (ptrRef (leafRef '''' ''Widget''))) \<and>
             resolveAliasSliceElem noModel (Some (sliceRef (ptrRef (leafRef '''' ''Widget''))))
               = Some (ptrRef (leafRef '''' ''Widget'')))"
    by (simp add: sliceRef_def)
  have c2: "(IsSlice (leafRef '''' ''Widgets'') \<and>
             Elem (leafRef '''' ''Widgets'') = Some (ptrRef (leafRef '''' ''Widget''))) \<or>
            (\<not> IsSlice (leafRef '''' ''Widgets'') \<and>
             resolveAliasSliceElem aliasModel (Some (leafRef '''' ''Widgets''))
               = Some (ptrRef (leafRef '''' ''Widget'')))"
    by (simp add: leafRef_def ptrRef_def resolveAliasSliceElem_def aliasModel_def widgetShell_def
          zeroWT_def setIsPtr_def)
  from C2_patch_collection [OF nro(1) ne(1) ty(1) c1, of plainParser, THEN conjunct1]
       C2_patch_collection [OF nro(2) ne(2) ty(2) c2, of plainParser, THEN conjunct1]
  show ?thesis
    by (simp add: ptrRef_def leafRef_def plainParser_def NewOptions_def resolveName_def
          patchSliceOfPtr_def Let_def)
qed

section \<open>Generic instantiation\<close>

lemma firstIndex_less: "firstIndex ps x = Some i \<Longrightarrow> i < length ps"
  by (induction ps arbitrary: i) (auto split: if_splits)

lemma substituteParamsInWT_Done:
  assumes "length params = length args"
  shows "\<exists>t'. substituteParamsInWT h t params args = Done t'"
proof (induction t)
  case (Node a)
  then show ?case using assms by (auto split: option.splits dest: firstIndex_less)
next
  case (PointerOf t)
  then show ?case using assms by (auto split: option.splits dest: firstIndex_less)
next
  case (SliceOf t)
  then show ?case using assms by (auto split: option.splits dest: firstIndex_less)
qed

lemma substituteFields_Done:
  assumes "length params = length args"
  shows "\<exists>fs'. substituteFields h fs params args = Done fs' \<and> length fs' = length fs"
proof (induction fs)
  case Nil
  then show ?case by simp
next
  case (Cons f fs)
  from substituteParamsInWT_Done [OF assms, of h "wf_Type f"]
  obtain t' where "substituteParamsInWT h (wf_Type f) params args = Done t'" by blast
  with Cons show ?case by auto
qed

lemma length_syntheticParamNames: "length (syntheticParamNames n) = n"
  by (simp add: syntheticParamNames_def)

lemma nth_syntheticParamNames: "i < n \<Longrightarrow> syntheticParamNames n ! i = ''T'' @ natToDec i"
  by (simp add: syntheticParamNames_def)

text \<open>
  C9, as amended. Whenever the first half of \<^verbatim>\<open>instantiateGeneric\<close> returns (it always
  does when the base needs no population), \<^verbatim>\<open>instantiateGeneric\<close> returns too, whatever
  the counts: it never panics. When moreover the base it has found is a struct that is not
  external and has fields, and the count of its declared parameter names is not the count
  of the arguments, the substitution is done under the names \<open>T0\<close>, \<open>T1\<close>, ..., one
  for each argument, and the result is a new struct node with the substituted fields.
  When the base it has found is external, is not a struct or has no fields, that base is
  returned as it is, in the state that the first half has left: nothing is allocated.
\<close>

theorem C9_instantiate_mismatch:
  assumes "genericBase rte E S base1 b = Done (base, b1)"
  shows "(\<exists>r. instantiateGeneric rte E S (Some base1) args b = Done r) \<and>
         (\<not> wt_IsExternal (deref (store b1) base) \<and> wt_Kind (deref (store b1) base) = KindStruct \<and>
          wt_Fields (deref (store b1) base) \<noteq> [] \<and>
          length (wt_TypeParams (deref (store b1) base)) \<noteq> length args
          \<longrightarrow> (\<exists>fs. substituteFields (store b1) (wt_Fields (deref (store b1) base))
                       (map (\<lambda>i. ''T'' @ natToDec i) [0..<length args]) args = Done fs \<and>
                    length fs = length (wt_Fields (deref (store b1) base)) \<and>
                    instantiateGeneric rte E S (Some base1) args b =
                      Done (Node (nextAddr b1),
                            b1\<lparr>store := (store b1)(nextAddr b1 :=
                                   zeroWT\<lparr>wt_Name := wt_Name (deref (store b1) base),
                                          wt_PkgPath := wt_PkgPath (deref (store b1) base),
                                          wt_Kind := KindStruct, wt_Fields := fs,
                                          wt_Comment := wt_Comment (deref (store b1) base),
                                          wt_IsExternal := False\<rparr>),
                               nextAddr := Suc (nextAddr b1)\<rparr>))) \<and>
         (wt_IsExternal (deref (store b1) base) \<or> wt_Kind (deref (store b1) base) \<noteq> KindStruct \<or>
          wt_Fields (deref (store b1) base) = []
          \<longrightarrow> instantiateGeneric rte E S (Some base1) args b = Done (base, b1))"
proof -
  let ?wt = "deref (store b1) base"
  let ?names = "if length (wt_TypeParams ?wt) \<noteq> length args
                then syntheticParamNames (length args) else wt_TypeParams ?wt"
  have len: "length ?names = length args"
    by (simp add: length_syntheticParamNames)
  from substituteFields_Done [OF len, of "store b1" "wt_Fields ?wt"]
  obtain fs where fs: "substituteFields (store b1) (wt_Fields ?wt) ?names args = Done fs"
    and lfs: "length fs = length (wt_Fields ?wt)" by blast
  have 1: "\<exists>r. instantiateGeneric rte E S (Some base1) args b = Done r"
    using assms fs by (auto simp: instantiateGeneric_def Let_def alloc_def)
  have 2: "\<exists>fs. substituteFields (store b1) (wt_Fields ?wt)
                       (map (\<lambda>i. ''T'' @ natToDec i) [0..<length args]) args = Done fs \<and>
                    length fs = length (wt_Fields ?wt) \<and>
                    instantiateGeneric rte E S (Some base1) args b =
                      Done (Node (nextAddr b1),
                            b1\<lparr>store := (store b1)(nextAddr b1 :=
                                   zeroWT\<lparr>wt_Name := wt_Name ?wt,
                                          wt_PkgPath := wt_PkgPath ?wt,
                                          wt_Kind := KindStruct, wt_Fields := fs,
                                          wt_Comment := wt_Comment ?wt,
                                          wt_IsExternal := False\<rparr>),
                               nextAddr := Suc (nextAddr b1)\<rparr>)"
    if h: "\<not> wt_IsExternal ?wt" "wt_Kind ?wt = KindStruct" "wt_Fields ?wt \<noteq> []"
          "length (wt_TypeParams ?wt) \<noteq> length args"
    using assms fs lfs h
    by (auto simp: instantiateGeneric_def Let_def alloc_def syntheticParamNames_def)
  have 3: "instantiateGeneric rte E S (Some base1) args b = Done (base, b1)"
    if "wt_IsExternal ?wt \<or> wt_Kind ?wt \<noteq> KindStruct \<or> wt_Fields ?wt = []"
    using assms that by (auto simp: instantiateGeneric_def Let_def)
  from 1 2 3 show ?thesis by blast
qed

text \<open>
  C9 as stated fails for a base that cannot be instantiated: an external struct has no
  recorded parameter names, so every instantiation of it is a mismatch, and it is returned
  as it is: nothing is allocated and no name \<open>T0\<close> is used.
\<close>

theorem C9_counterexample:
  "length (wt_TypeParams (store extBuilder 0)) \<noteq> length [Node 2] \<and>
   instantiateGeneric (\<lambda>e b. Unfinished) asciiEnv noSource (Some (Node 0)) [Node 2] extBuilder
     = Done (Node 0, extBuilder)"
  by (simp add: instantiateGeneric_def genericBase_def extBuilder_def NewBuilder_def zeroWT_def
        Let_def)

theorem C9_instantiate_mismatch_witness:
  "(\<exists>b'. instantiateGeneric (\<lambda>e b. Unfinished) asciiEnv noSource (Some (Node 0)) [Node 3, Node 4] boxBuilder
          = Done (Node 5, b') \<and>
        wt_Fields (store b' 5) = [fieldOf ''Value'' False (Node 1), fieldOf ''Others'' False (SliceOf (Node 4))]) \<and>
   instantiateGeneric (\<lambda>e b. Unfinished) asciiEnv noSource (Some (Node 1)) [Node 3, Node 4] boxBuilder
     = Done (Node 1, boxBuilder)"
proof -
  have g: "genericBase (\<lambda>e b. Unfinished) asciiEnv noSource (Node 0) boxBuilder = Done (Node 0, boxBuilder)"
    by (simp add: genericBase_def boxBuilder_def NewBuilder_def zeroWT_def Let_def)
  have h: "\<not> wt_IsExternal (deref (store boxBuilder) (Node 0)) \<and>
           wt_Kind (deref (store boxBuilder) (Node 0)) = KindStruct \<and>
           wt_Fields (deref (store boxBuilder) (Node 0)) \<noteq> [] \<and>
           length (wt_TypeParams (deref (store boxBuilder) (Node 0))) \<noteq> length [Node 3, Node 4]"
    by (simp add: boxBuilder_def NewBuilder_def zeroWT_def)
  have s: "substituteFields (store boxBuilder) (wt_Fields (deref (store boxBuilder) (Node 0)))
             (map (\<lambda>i. ''T'' @ natToDec i) [0..<length [Node 3, Node 4]]) [Node 3, Node 4]
           = Done [fieldOf ''Value'' False (Node 1), fieldOf ''Others'' False (SliceOf (Node 4))]"
    by (simp add: boxBuilder_def NewBuilder_def zeroWT_def leafNode_def fieldOf_def upt_rec)
  have n: "nextAddr boxBuilder = 5"
    by (simp add: boxBuilder_def NewBuilder_def)
  have g1: "genericBase (\<lambda>e b. Unfinished) asciiEnv noSource (Node 1) boxBuilder = Done (Node 1, boxBuilder)"
    by (simp add: genericBase_def boxBuilder_def NewBuilder_def zeroWT_def leafNode_def Let_def)
  have h1: "wt_Kind (deref (store boxBuilder) (Node 1)) \<noteq> KindStruct"
    by (simp add: boxBuilder_def NewBuilder_def zeroWT_def leafNode_def)
  from C9_instantiate_mismatch [OF g, of "[Node 3, Node 4]"] h s n
  have first: "\<exists>b'. instantiateGeneric (\<lambda>e b. Unfinished) asciiEnv noSource (Some (Node 0)) [Node 3, Node 4] boxBuilder
          = Done (Node 5, b') \<and>
        wt_Fields (store b' 5) = [fieldOf ''Value'' False (Node 1), fieldOf ''Others'' False (SliceOf (Node 4))]"
    by auto
  from C9_instantiate_mismatch [OF g1, of "[Node 3, Node 4]"] h1
  have second: "instantiateGeneric (\<lambda>e b. Unfinished) asciiEnv noSource (Some (Node 1)) [Node 3, Node 4] boxBuilder
     = Done (Node 1, boxBuilder)"
    by blast
  from first second show ?thesis by blast
qed

section \<open>Collection aliases\<close>


lemma modify_byName: "byName (modify a f b) = byName b"
  by (simp add: modify_def)








lemma Find_None_loadExternal: "loadExternalRawStruct S '''' name b = (None, b)"
  by (simp add: loadExternalRawStruct_def)




section \<open>Exclusion by name and by deprecation\<close>

text \<open>
  C8. The exclude list holds \<^verbatim>\<open>TestEmbedded\<close>, as \<^verbatim>\<open>WithExcludeTypes("TestEmbedded")\<close>
  puts it there, and the declared type has that very name, so the two are equal under a
  comparison that ignores case. \<^verbatim>\<open>isTypeExcluded\<close> lowers the name and compares it with the
  entry as it stands: it answers no, the type is not marked \<^verbatim>\<open>Omit\<close>, and \<^verbatim>\<open>BuildAll\<close>
  returns it.
\<close>

theorem C8_failing_input:
  "list_ex (\<lambda>ex. EqualFold asciiEnv ex ''TestEmbedded'') (ExcludeTypes excludeTypeOpts) \<and>
   \<not> isTypeExcluded asciiEnv excludeTypeOpts ''TestEmbedded'' \<and>
   (case BuildAll 1 asciiEnv noSource [''TestEmbedded''] [''TestEmbedded''] [''TestEmbedded'']
           (NewBuilder excludeTypeOpts (testEmbeddedRaws '''') ()) of
      Done (out, b') \<Rightarrow> out = [0] \<and> wt_Name (store b' 0) = ''TestEmbedded'' \<and> \<not> wt_Omit (store b' 0)
    | _ \<Rightarrow> False)"
  by code_simp

text \<open>
  C7. The comment of the type is \<^verbatim>\<open>DEPRECATED: use Other\<close>, which holds the word
  \<^verbatim>\<open>deprecated\<close> once case is ignored, and the exclude-deprecated option is on.
  \<^verbatim>\<open>filterDeprecated\<close> looks for the two spellings \<^verbatim>\<open>Deprecated\<close> and \<^verbatim>\<open>deprecated\<close>
  only: the type is not marked \<^verbatim>\<open>Omit\<close>, \<^verbatim>\<open>BuildAll\<close> returns it, and it is among the
  structs of the output.
\<close>

theorem C7_failing_input:
  "Contains (ToLower asciiEnv ''DEPRECATED: use Other'') ''deprecated'' \<and>
   \<not> wt_Omit (filterDeprecated excludeDeprecatedOpts
                (zeroWT\<lparr>wt_Name := ''TestEmbedded'', wt_Kind := KindStruct,
                        wt_Comment := ''DEPRECATED: use Other''\<rparr>)) \<and>
   (case BuildAll 1 asciiEnv noSource [''TestEmbedded''] [''TestEmbedded''] [''TestEmbedded'']
           (NewBuilder excludeDeprecatedOpts (testEmbeddedRaws ''DEPRECATED: use Other'') ()) of
      Done (out, b') \<Rightarrow> out = [0] \<and> \<not> wt_Omit (store b' 0) \<and>
         map as_Name (ToApiStructs asciiEnv excludeDeprecatedOpts (store b') out) = [''TestEmbedded'']
    | _ \<Rightarrow> False)"
  by code_simp

section \<open>Fields excluded by tag\<close>

lemma tagHasPart_iff:
  "tagHasPart E tag f \<longleftrightarrow> (\<exists>v. Lookup E tag (Key f) = Some v \<and> Value f \<in> set (Split v CHR '';''))"
  by (auto simp: tagHasPart_def list_ex_iff split: option.splits)

lemma shouldOmitFieldByTag_iff:
  "shouldOmitFieldByTag E os rf \<longleftrightarrow>
     (\<exists>lit f v. rf_TagLit rf = Some lit \<and> f \<in> set (ExcludeByTags os) \<and>
        Lookup E (Trim lit CHR 0x60) (Key f) = Some v \<and> Value f \<in> set (Split v CHR '';''))"
  by (auto simp: shouldOmitFieldByTag_def Let_def list_ex_iff tagHasPart_iff Lookup_Nil
      split: option.splits)

lemma resolveRawField_omitted:
  "shouldOmitFieldByTag E (opts b) rf \<Longrightarrow> resolveRawField rte E rf b = Done ([], b)"
  by (simp add: resolveRawField_def)

lemma alike_andThen:
  assumes "alike R m' m" and "\<And>r' r. R r' r \<Longrightarrow> alike Q (f' r') (f r)"
  shows "alike Q (andThen m' f') (andThen m f)"
  using assms by (cases m; cases m') (auto simp: alike_def)

lemma alike_Done: "R r' r \<Longrightarrow> alike R (Done r') (Done r)"
  by (simp add: alike_def)

lemma opts_modify: "opts (modify a f b) = opts b"
  by (simp add: modify_def)

lemma dropB_simps:
  "opts (dropExcludedB E os b) = opts b"
  "store (dropExcludedB E os b) = store b"
  "byName (dropExcludedB E os b) = byName b"
  "resolving (dropExcludedB E os b) = resolving b"
  "parser (dropExcludedB E os b) = parser b"
  "nextAddr (dropExcludedB E os b) = nextAddr b"
  "raws (dropExcludedB E os b) = map (dropExcludedRaw E os) (raws b)"
  by (simp_all add: dropExcludedB_def)

lemma dropB_updates:
  "(dropExcludedB E os b)\<lparr>parser := p\<rparr> = dropExcludedB E os (b\<lparr>parser := p\<rparr>)"
  "(dropExcludedB E os b)\<lparr>resolving := r\<rparr> = dropExcludedB E os (b\<lparr>resolving := r\<rparr>)"
  "(dropExcludedB E os b)\<lparr>byName := n\<rparr> = dropExcludedB E os (b\<lparr>byName := n\<rparr>)"
  "modify a f (dropExcludedB E os b) = dropExcludedB E os (modify a f b)"
  "alloc wt (dropExcludedB E os b) = (fst (alloc wt b), dropExcludedB E os (snd (alloc wt b)))"
  by (simp_all add: dropExcludedB_def modify_def alloc_def)

lemma opts_alloc: "opts (snd (alloc wt b)) = opts b"
  by (simp add: alloc_def)

lemma Find_dropExcluded:
  "Find (map (dropExcludedRaw E os) rs) name = map_option (dropExcludedRaw E os) (Find rs name)"
  by (induction rs) (auto simp: Find_def dropExcludedRaw_def)

lemma dropRaw_simps:
  "rs_Alias (dropExcludedRaw E os raw) = rs_Alias raw"
  "rs_AliasPtr (dropExcludedRaw E os raw) = rs_AliasPtr raw"
  "rs_PkgPath (dropExcludedRaw E os raw) = rs_PkgPath raw"
  "rs_Comment (dropExcludedRaw E os raw) = rs_Comment raw"
  "rs_TypeParams (dropExcludedRaw E os raw) = rs_TypeParams raw"
  "rs_Name (dropExcludedRaw E os raw) = rs_Name raw"
  "rs_Fields (dropExcludedRaw E os raw) = dropExcluded E os (rs_Fields raw)"
  by (simp_all add: dropExcludedRaw_def)

lemma ensureWorkingType_drop:
  "ensureWorkingType name (dropExcludedB E os b)
     = (fst (ensureWorkingType name b), dropExcludedB E os (snd (ensureWorkingType name b)))"
  by (auto simp: ensureWorkingType_def dropB_simps dropB_updates Find_dropExcluded Let_def
        dropRaw_simps split_beta split: option.splits)

lemma opts_ensureWorkingType: "opts (snd (ensureWorkingType name b)) = opts b"
  by (auto simp: ensureWorkingType_def Let_def split_beta opts_alloc split: option.splits)

lemma alike_andThen_run:
  assumes "alike (sameResult E os) m' m"
    and "\<And>x b1. opts b1 = os \<Longrightarrow> alike Q (f' (x, dropExcludedB E os b1)) (f (x, b1))"
  shows "alike Q (andThen m' f') (andThen m f)"
proof (cases m)
  case (Done r)
  with assms(1) have m': "m' = Done (fst r, dropExcludedB E os (snd r))" and o: "opts (snd r) = os"
    by (cases m'; simp add: alike_def sameResult_def sameBuild_def prod_eq_iff)+
  from assms(2) [OF o, of "fst r"] Done m' show ?thesis by simp
next
  case (Panic e)
  with assms(1) show ?thesis by (simp add: alike_def)
next
  case Unfinished
  with assms(1) show ?thesis by (simp add: alike_def)
qed

lemma alike_andThen_build:
  assumes "alike (sameBuild E os) m' m"
    and "\<And>b1. opts b1 = os \<Longrightarrow> alike Q (f' (dropExcludedB E os b1)) (f b1)"
  shows "alike Q (andThen m' f') (andThen m f)"
proof (cases m)
  case (Done r)
  with assms(1) have m': "m' = Done (dropExcludedB E os r)" and o: "opts r = os"
    by (cases m'; simp add: alike_def sameBuild_def)+
  from assms(2) [OF o] Done m' show ?thesis by simp
next
  case (Panic e)
  with assms(1) show ?thesis by (simp add: alike_def)
next
  case Unfinished
  with assms(1) show ?thesis by (simp add: alike_def)
qed

lemma alike_run_Done:
  "opts b = os \<Longrightarrow> alike (sameResult E os) (Done (x, dropExcludedB E os b)) (Done (x, b))"
  by (simp add: alike_def sameResult_def sameBuild_def)

lemma alike_build_Done:
  "opts b = os \<Longrightarrow> alike (sameBuild E os) (Done (dropExcludedB E os b)) (Done b)"
  by (simp add: alike_def sameBuild_def)

lemma alike_Unfinished: "alike R Unfinished Unfinished"
  by (simp add: alike_def)

lemma resolveRawField_drop:
  assumes "sameRte E os rte' rte" and "opts b = os" and "\<not> shouldOmitFieldByTag E os rf"
  shows "alike (sameResult E os) (resolveRawField rte' E rf (dropExcludedB E os b))
           (resolveRawField rte E rf b)"
proof -
  have r: "alike (sameResult E os) (rte' (rf_TypeExpr rf) (dropExcludedB E os b)) (rte (rf_TypeExpr rf) b)"
    using assms by (simp add: sameRte_def)
  show ?thesis
  proof (cases "parseStructTagLit E (rf_TagLit rf)")
    case None
    with assms(2,3) show ?thesis
      by (simp add: resolveRawField_def dropB_simps alike_Unfinished)
  next
    case (Some tagMap)
    with assms(2,3) show ?thesis
      by (simp add: resolveRawField_def dropB_simps Let_def split del: if_split)
         (rule alike_andThen_run [OF r], simp add: dropB_simps alike_run_Done)
  qed
qed

lemma appendFields_drop:
  assumes "sameRte E os rte' rte"
  shows "opts b = os \<Longrightarrow>
         alike (sameBuild E os) (appendFields rte' E a (dropExcluded E os rfs) (dropExcludedB E os b))
           (appendFields rte E a rfs b)"
proof (induction rfs arbitrary: b)
  case Nil
  then show ?case by (simp add: dropExcluded_def alike_build_Done)
next
  case (Cons rf rfs)
  show ?case
  proof (cases "shouldOmitFieldByTag E os rf")
    case True
    with Cons show ?thesis
      by (simp add: dropExcluded_def resolveRawField_omitted)
  next
    case False
    have "alike (sameBuild E os)
            (andThen (resolveRawField rte' E rf (dropExcludedB E os b)) (\<lambda>(fs, b1).
               appendFields rte' E a (dropExcluded E os rfs)
                 (if length fs > 0 then modify a (\<lambda>wt. wt\<lparr>wt_Fields := wt_Fields wt @ fs\<rparr>) b1 else b1)))
            (andThen (resolveRawField rte E rf b) (\<lambda>(fs, b1).
               appendFields rte E a rfs
                 (if length fs > 0 then modify a (\<lambda>wt. wt\<lparr>wt_Fields := wt_Fields wt @ fs\<rparr>) b1 else b1)))"
      by (rule alike_andThen_run [OF resolveRawField_drop [OF assms Cons.prems False]])
         (simp add: dropB_updates opts_modify Cons.IH)
    with False show ?thesis by (simp add: dropExcluded_def)
  qed
qed

lemma dropS_simps:
  "importPath (dropExcludedS E os S) = importPath S"
  "probeImports (dropExcludedS E os S) = probeImports S"
  "externalAliases (dropExcludedS E os S) = externalAliases S"
  "loadStruct (dropExcludedS E os S) p path name =
     (map_option (dropExcluded E os) (fst (loadStruct S p path name)), snd (loadStruct S p path name))"
  "aliasFields (dropExcludedS E os S) p ea =
     (map_option (dropExcluded E os) (fst (aliasFields S p ea)), snd (aliasFields S p ea))"
  by (simp_all add: dropExcludedS_def split_beta)

lemma loadExternalRawStruct_drop:
  "loadExternalRawStruct (dropExcludedS E os S) pkgPath typeName (dropExcludedB E os b) =
     (map_option (dropExcludedRaw E os) (fst (loadExternalRawStruct S pkgPath typeName b)),
      dropExcludedB E os (snd (loadExternalRawStruct S pkgPath typeName b)))"
  by (auto simp: loadExternalRawStruct_def dropS_simps dropB_simps dropB_updates split_beta
        dropExcludedRaw_def split: option.splits)

lemma opts_loadExternalRawStruct: "opts (snd (loadExternalRawStruct S pkgPath typeName b)) = opts b"
  by (auto simp: loadExternalRawStruct_def split_beta split: option.splits)

lemma resolveExternalType_drop:
  assumes "sameRte E os rte' rte" and "opts b = os"
  shows "alike (sameResult E os)
           (resolveExternalType rte' E (dropExcludedS E os S) pkgPath typeName (dropExcludedB E os b))
           (resolveExternalType rte E S pkgPath typeName b)"
proof -
  define tn where "tn = (if typeName = '''' then ''UNKNOWN'' else typeName)"
  define wt0 where "wt0 = zeroWT\<lparr>wt_Name := tn, wt_PkgPath := pkgPath, wt_Kind := KindStruct,
                                   wt_IsExternal := True, wt_Fields := []\<rparr>"
  define b1 where "b1 = snd (alloc wt0 b)"
  define r where "r = loadExternalRawStruct S pkgPath tn b1"
  have o: "opts (snd r) = os"
    using assms(2) by (simp add: r_def b1_def opts_loadExternalRawStruct opts_alloc)
  have L: "resolveExternalType rte' E (dropExcludedS E os S) pkgPath typeName (dropExcludedB E os b) =
        (case fst r of
           Some raw \<Rightarrow> andThen (appendFields rte' E (fst (alloc wt0 b)) (dropExcluded E os (rs_Fields raw))
                                  (dropExcludedB E os (snd r)))
                         (\<lambda>b3. Done (Node (fst (alloc wt0 b)), b3))
         | None \<Rightarrow> Done (Node (fst (alloc wt0 b)), dropExcludedB E os (snd r)))"
    by (simp add: resolveExternalType_def Let_def split_beta dropB_updates loadExternalRawStruct_drop
          tn_def wt0_def b1_def r_def dropRaw_simps option.case_eq_if option.map_sel)
  have R: "resolveExternalType rte E S pkgPath typeName b =
        (case fst r of
           Some raw \<Rightarrow> andThen (appendFields rte E (fst (alloc wt0 b)) (rs_Fields raw) (snd r))
                         (\<lambda>b3. Done (Node (fst (alloc wt0 b)), b3))
         | None \<Rightarrow> Done (Node (fst (alloc wt0 b)), snd r))"
    by (simp add: resolveExternalType_def Let_def split_beta tn_def wt0_def b1_def r_def
          option.case_eq_if)
  show ?thesis
    unfolding L R
  proof (cases "fst r")
    case None
    with o show "alike (sameResult E os)
       (case fst r of None \<Rightarrow> Done (Node (fst (alloc wt0 b)), dropExcludedB E os (snd r))
        | Some raw \<Rightarrow> andThen (appendFields rte' E (fst (alloc wt0 b)) (dropExcluded E os (rs_Fields raw))
                                  (dropExcludedB E os (snd r)))
                         (\<lambda>b3. Done (Node (fst (alloc wt0 b)), b3)))
       (case fst r of None \<Rightarrow> Done (Node (fst (alloc wt0 b)), snd r)
        | Some raw \<Rightarrow> andThen (appendFields rte E (fst (alloc wt0 b)) (rs_Fields raw) (snd r))
                         (\<lambda>b3. Done (Node (fst (alloc wt0 b)), b3)))"
      by (simp add: alike_run_Done)
  next
    case (Some raw)
    then show "alike (sameResult E os)
       (case fst r of None \<Rightarrow> Done (Node (fst (alloc wt0 b)), dropExcludedB E os (snd r))
        | Some raw \<Rightarrow> andThen (appendFields rte' E (fst (alloc wt0 b)) (dropExcluded E os (rs_Fields raw))
                                  (dropExcludedB E os (snd r)))
                         (\<lambda>b3. Done (Node (fst (alloc wt0 b)), b3)))
       (case fst r of None \<Rightarrow> Done (Node (fst (alloc wt0 b)), snd r)
        | Some raw \<Rightarrow> andThen (appendFields rte E (fst (alloc wt0 b)) (rs_Fields raw) (snd r))
                         (\<lambda>b3. Done (Node (fst (alloc wt0 b)), b3)))"
      by (simp, intro alike_andThen_build [OF appendFields_drop [OF assms(1) o]])
         (simp add: alike_run_Done)
  qed
qed

lemma alike_case_option:
  assumes "x = None \<Longrightarrow> alike R a' a" and "\<And>v. x = Some v \<Longrightarrow> alike R (f' v) (f v)"
  shows "alike R (case x of None \<Rightarrow> a' | Some v \<Rightarrow> f' v) (case x of None \<Rightarrow> a | Some v \<Rightarrow> f v)"
  using assms by (cases x) simp_all

lemma alike_if:
  assumes "c \<Longrightarrow> alike R a' a" and "\<not> c \<Longrightarrow> alike R b' b"
  shows "alike R (if c then a' else b') (if c then a else b)"
  using assms by simp

lemmas opts_keep = opts_alloc opts_modify opts_ensureWorkingType opts_loadExternalRawStruct

lemmas drop_simps = Let_def split_beta dropB_updates dropB_simps dropS_simps dropRaw_simps
  loadExternalRawStruct_drop ensureWorkingType_drop Find_dropExcluded opts_keep option.map_sel

lemma alike_case_map_option:
  assumes "x = None \<Longrightarrow> alike R a' a" and "\<And>v. x = Some v \<Longrightarrow> alike R (f' (g v)) (f v)"
  shows "alike R (case map_option g x of None \<Rightarrow> a' | Some v \<Rightarrow> f' v)
           (case x of None \<Rightarrow> a | Some v \<Rightarrow> f v)"
  using assms by (cases x) simp_all

lemmas alike_intros = alike_case_option alike_if alike_run_Done alike_build_Done alike_Unfinished

lemma buildExternalAliasType_drop:
  assumes "sameRte E os rte' rte" and "opts b = os"
  shows "alike (sameResult E os)
           (buildExternalAliasType rte' E (dropExcludedS E os S) aliasName ea (dropExcludedB E os b))
           (buildExternalAliasType rte E S aliasName ea b)"
  using assms(2)
  apply (simp add: buildExternalAliasType_def drop_simps split del: if_split
      cong: option.case_cong if_cong)
  apply (intro alike_intros alike_andThen_build [OF appendFields_drop [OF assms(1)]];
      simp add: drop_simps alike_intros)
  done

lemma resolveIdentType_drop:
  assumes "sameRte E os rte' rte" and "opts b = os"
  shows "alike (sameResult E os)
           (resolveIdentType rte' E (dropExcludedS E os S) name (dropExcludedB E os b))
           (resolveIdentType rte E S name b)"
  using assms(2)
  apply (simp add: resolveIdentType_def drop_simps split del: if_split
      cong: option.case_cong if_cong)
  apply (intro alike_intros buildExternalAliasType_drop [OF assms(1)]
      resolveExternalType_drop [OF assms(1)]; simp add: drop_simps alike_intros)
  done

lemma resolveTypeExprAlias_drop:
  assumes "sameRte E os rte' rte" and "opts b = os"
  shows "alike (sameResult E os)
           (resolveTypeExprAlias rte' E (dropExcludedS E os S) aliasName aliasPtr (dropExcludedB E os b))
           (resolveTypeExprAlias rte E S aliasName aliasPtr b)"
  using assms(2)
  apply (simp add: resolveTypeExprAlias_def drop_simps Find_None_loadExternal split del: if_split
      cong: option.case_cong if_cong)
  apply (intro alike_intros alike_andThen_run [where E = E and os = os]; simp add: drop_simps alike_intros)
  done

lemma populateFields_drop:
  assumes "sameRte E os rte' rte" and "opts b = os"
  shows "alike (sameBuild E os)
           (populateFields rte' E (dropExcludedS E os S) a (dropExcludedB E os b))
           (populateFields rte E S a b)"
  using assms(2)
  apply (simp add: populateFields_def drop_simps split del: if_split
      cong: option.case_cong if_cong)
  apply (intro alike_intros alike_andThen_build [where E = E and os = os]
      alike_andThen_run [OF resolveTypeExprAlias_drop [OF assms(1)]]
      appendFields_drop [OF assms(1)]; simp add: drop_simps alike_intros)
  done

lemma alike_andThen_same:
  assumes "\<And>x. alike Q (f' x) (f x)"
  shows "alike Q (andThen m f') (andThen m f)"
  using assms by (cases m) (simp_all add: alike_def)

lemma populate_case_drop:
  assumes "sameRte E os rte' rte" and "opts b = os"
  shows "alike (sameBuild E os)
           (case base of Node a \<Rightarrow> populateFields rte' E (dropExcludedS E os S) a (dropExcludedB E os b)
            | _ \<Rightarrow> Done (dropExcludedB E os b))
           (case base of Node a \<Rightarrow> populateFields rte E S a b | _ \<Rightarrow> Done b)"
  using assms(2) by (cases base) (simp_all add: populateFields_drop [OF assms(1)] alike_intros)

lemma genericBase_drop:
  assumes "sameRte E os rte' rte" and "opts b = os"
  shows "alike (sameResult E os)
           (genericBase rte' E (dropExcludedS E os S) base1 (dropExcludedB E os b))
           (genericBase rte E S base1 b)"
  using assms(2)
  apply (simp add: genericBase_def drop_simps split del: if_split
      cong: option.case_cong if_cong)
  apply (intro alike_intros alike_andThen_build [where E = E and os = os]
      populate_case_drop [OF assms];
      (simp add: drop_simps alike_intros split del: if_split)?)
  done

lemma instantiateGeneric_drop:
  assumes "sameRte E os rte' rte" and "opts b = os"
  shows "alike (sameResult E os)
           (instantiateGeneric rte' E (dropExcludedS E os S) base0 args (dropExcludedB E os b))
           (instantiateGeneric rte E S base0 args b)"
proof (cases base0)
  case None
  with assms(2) show ?thesis
    by (simp add: instantiateGeneric_def drop_simps alike_intros)
next
  case (Some base1)
  show ?thesis
    unfolding Some instantiateGeneric_def option.case
    apply (rule alike_andThen_run [OF genericBase_drop [OF assms]])
    apply (simp add: drop_simps split del: if_split cong: if_cong)
    apply (intro alike_intros alike_andThen_same; (simp add: drop_simps alike_intros split del: if_split)?)
    done
qed

lemma resolveSelector_drop:
  "resolveSelector (dropExcludedS E os S) x sel (dropExcludedB E os b) = resolveSelector S x sel b"
  by (cases x) (simp_all add: resolveSelector_def dropS_simps dropB_simps)

lemma resolveTypeExprF_drop:
  assumes "sameRte E os rte' rte"
  shows "opts b = os \<Longrightarrow>
         alike (sameResult E os) (resolveTypeExprF rte' E (dropExcludedS E os S) e (dropExcludedB E os b))
           (resolveTypeExprF rte E S e b)"
    and "opts b = os \<Longrightarrow>
         alike (sameResult E os) (resolveIndices rte' E (dropExcludedS E os S) es (dropExcludedB E os b))
           (resolveIndices rte E S es b)"
  using assms
proof (induction rte E S e b and rte E S es b rule: resolveTypeExprF_resolveIndices.induct)
  case (1 rte E S name b)
  then show ?case by (simp add: resolveIdentType_drop)
next
  case (2 rte E S x b)
  then show ?case
    by (simp, intro alike_andThen_run [where E = E and os = os]) (simp_all add: alike_intros)
next
  case (3 rte E S elt b)
  then show ?case
    by (simp, intro alike_andThen_run [where E = E and os = os]) (simp_all add: alike_intros)
next
  case (4 rte E S x index b)
  then show ?case
    by (simp, intro alike_andThen_run [where E = E and os = os], simp, simp,
        intro alike_andThen_run [where E = E and os = os])
       (simp_all add: alike_intros instantiateGeneric_drop)
next
  case (5 rte E S x indices b)
  then show ?case
    by (simp, intro alike_andThen_run [where E = E and os = os], simp, simp,
        intro alike_andThen_run [where E = E and os = os])
       (simp_all add: alike_intros instantiateGeneric_drop)
next
  case (6 rte E S x sel b)
  then show ?case
    by (simp add: resolveSelector_drop split_beta resolveExternalType_drop)
next
  case (7 rte E S b)
  then show ?case by (simp add: drop_simps alike_intros)
next
  case (8 rte E S b)
  then show ?case by (simp add: alike_intros)
next
  case (9 rte E S e es b)
  then show ?case
    by (simp, intro alike_andThen_run [where E = E and os = os], simp, simp,
        intro alike_andThen_run [where E = E and os = os])
       (simp_all add: alike_intros)
qed

lemma resolveTypeExpr_drop:
  "sameRte E os (resolveTypeExpr n E (dropExcludedS E os S)) (resolveTypeExpr n E S)"
proof (induction n)
  case 0
  then show ?case by (simp add: sameRte_def alike_intros)
next
  case (Suc n)
  show ?case
    unfolding sameRte_def
    by (simp add: resolveTypeExprF_drop(1) [OF Suc])
qed

lemma populateAll_drop:
  "opts b = os \<Longrightarrow>
   alike (sameBuild E os) (populateAll n E (dropExcludedS E os S) names (dropExcludedB E os b))
     (populateAll n E S names b)"
proof (induction names arbitrary: b)
  case Nil
  then show ?case by (simp add: alike_intros)
next
  case (Cons name names)
  show ?case
  proof (cases "byName b name")
    case None
    with Cons show ?thesis by (simp add: dropB_simps)
  next
    case (Some a)
    with Cons show ?thesis
      by (simp add: dropB_simps)
         (intro alike_andThen_build [OF populateFields_drop [OF resolveTypeExpr_drop]], simp_all)
  qed
qed

lemma applyTransformations_drop:
  "applyTransformations E' a (dropExcludedB E os b) = dropExcludedB E os (applyTransformations E' a b)"
  by (simp add: applyTransformations_def Let_def dropB_simps dropB_updates opts_modify)

lemma transformAll_drop:
  "transformAll E' names (dropExcludedB E os b) = dropExcludedB E os (transformAll E' names b)"
  by (induction names arbitrary: b) (simp_all add: dropB_simps applyTransformations_drop split: option.splits)

lemma opts_transformAll: "opts (transformAll E names b) = opts b"
  by (induction names arbitrary: b) (simp_all add: applyTransformations_opts split: option.splits)

lemma collectKept_drop: "collectKept (dropExcludedB E os b) names = collectKept b names"
  by (induction names) (simp_all add: dropB_simps split: option.splits)

lemma ensureAll_drop:
  "ensureAll (map (dropExcludedRaw E os) rs) (dropExcludedB E os b) = dropExcludedB E os (ensureAll rs b)"
  by (induction rs arbitrary: b) (simp_all add: ensureWorkingType_drop dropRaw_simps)

lemma opts_ensureAll: "opts (ensureAll rs b) = opts b"
  by (induction rs arbitrary: b) (simp_all add: opts_ensureWorkingType)

lemma BuildAll_drop:
  assumes "opts b = os"
  shows "alike (sameResult E os)
           (BuildAll n E (dropExcludedS E os S) order2 order3 order4 (dropExcludedB E os b))
           (BuildAll n E S order2 order3 order4 b)"
  using assms
  apply (simp add: BuildAll_def Let_def dropB_simps ensureAll_drop)
  apply (intro alike_andThen_build [OF populateAll_drop])
   apply (simp_all add: opts_ensureAll transformAll_drop collectKept_drop alike_intros opts_transformAll)
  done

lemma alike_erased: "alike (sameResult E os) out' out \<Longrightarrow> out' = erased E os out"
  by (cases out; cases out')
     (auto simp: alike_def sameResult_def sameBuild_def erased_def prod_eq_iff split: prod.splits)

lemma dropP_simps:
  "p_Opts (dropExcludedP E os p) = p_Opts p"
  "p_ApiStructs (dropExcludedP E os p) = p_ApiStructs p"
  "p_RawStructs (dropExcludedP E os p) = map (dropExcludedRaw E os) (p_RawStructs p)"
  "(dropExcludedP E os p)\<lparr>p_ApiStructs := x\<rparr> = dropExcludedP E os (p\<lparr>p_ApiStructs := x\<rparr>)"
  by (simp_all add: dropExcludedP_def)

lemma patchBaseElem_drop: "patchBaseElem (dropExcludedP E os p) wm t = patchBaseElem p wm t"
  by (auto simp: patchBaseElem_def dropP_simps Find_dropExcluded dropRaw_simps split: option.splits)

lemma resolveName_drop: "resolveName (dropExcludedP E os p) name = resolveName p name"
  by (simp add: resolveName_def dropP_simps)

lemma buildPatchSliceFieldType_drop:
  "buildPatchSliceFieldType (dropExcludedP E os p) wm t = buildPatchSliceFieldType p wm t"
  by (simp add: buildPatchSliceFieldType_def patchBaseElem_drop resolveName_drop Let_def dropP_simps
      cong: option.case_cong if_cong)

lemma patchField_drop: "patchField E' (dropExcludedP E os p) wm f = patchField E' p wm f"
  by (simp add: patchField_def buildPatchSliceFieldType_drop pointerizePatchStructType_def dropP_simps
      cong: option.case_cong if_cong)

lemma patchFieldsLoop_drop:
  "patchFieldsLoop E' (dropExcludedP E os p) wm patch fs = patchFieldsLoop E' p wm patch fs"
  by (induction fs arbitrary: patch) (simp_all add: patchField_drop Let_def)

lemma patchStructsLoop_drop:
  "patchStructsLoop E' wm sfx bases (dropExcludedP E os p)
   = dropExcludedP E os (patchStructsLoop E' wm sfx bases p)"
  by (induction bases arbitrary: p) (simp_all add: Let_def patchFieldsLoop_drop dropP_simps)

lemma buildPatchStructs_drop:
  "buildPatchStructs E' wm (dropExcludedP E os p) = dropExcludedP E os (buildPatchStructs E' wm p)"
  by (simp add: buildPatchStructs_def Let_def patchStructsLoop_drop dropP_simps)

lemma parseStructs_erased:
  "parseStructs E os (map (dropExcludedRaw E os) rs) wm (erased E os out) = parseStructs E os rs wm out"
proof (cases out)
  case (Done r)
  have eq: "\<lparr>p_Opts = os, p_RawStructs = map (dropExcludedRaw E os) rs, p_ApiStructs = x\<rparr>
        = dropExcludedP E os \<lparr>p_Opts = os, p_RawStructs = rs, p_ApiStructs = x\<rparr>" for x
    by (simp add: dropExcludedP_def)
  from Done show ?thesis
    by (simp add: parseStructs_def erased_def split_beta dropB_simps)
       (simp only: eq buildPatchStructs_drop dropP_simps)
qed (simp_all add: parseStructs_def erased_def)

text \<open>
  C3. A raw field whose tag has the key of an exclude-by-tag rule, with the value of the rule
  among the parts of the tag value between semicolons, is dropped before its type expression
  is looked at: whatever the resolution of type expressions would do, the field gives no
  working field and leaves the builder, and so the graph, as it was. The declarations do not
  hold the field once the excluded fields are taken out of them, and from those declarations
  the build returns the same types over the same graph, fails the same way, and \<^verbatim>\<open>Parse\<close>
  makes the same base and patch structs. The options, those for deprecation and embedding
  among them, are any.
\<close>

theorem C3_excluded_field_dropped:
  assumes "rf_TagLit rf = Some lit"
    and "f \<in> set (ExcludeByTags (opts b))"
    and "Lookup E (Trim lit CHR 0x60) (Key f) = Some v"
    and "Value f \<in> set (Split v CHR '';'')"
  shows "resolveRawField rte E rf b = Done ([], b) \<and>
         rf \<notin> set (dropExcluded E (opts b) rfs) \<and>
         BuildAll n E (dropExcludedS E (opts b) S) order2 order3 order4 (dropExcludedB E (opts b) b)
           = erased E (opts b) (BuildAll n E S order2 order3 order4 b) \<and>
         parseStructs E (opts b) (raws (dropExcludedB E (opts b) b)) wm
             (BuildAll n E (dropExcludedS E (opts b) S) order2 order3 order4 (dropExcludedB E (opts b) b))
           = parseStructs E (opts b) (raws b) wm (BuildAll n E S order2 order3 order4 b)"
proof -
  from assms have omit: "shouldOmitFieldByTag E (opts b) rf"
    unfolding shouldOmitFieldByTag_iff by blast
  have build: "BuildAll n E (dropExcludedS E (opts b) S) order2 order3 order4 (dropExcludedB E (opts b) b)
           = erased E (opts b) (BuildAll n E S order2 order3 order4 b)"
    by (rule alike_erased) (rule BuildAll_drop, rule refl)
  from omit build show ?thesis
    by (simp add: resolveRawField_omitted dropExcluded_def parseStructs_erased dropB_simps)
qed

theorem C3_excluded_field_dropped_witness:
  "resolveRawField (resolveTypeExpr 1 asciiEnv noSource) asciiEnv secretField accountBuilder
     = Done ([], accountBuilder) \<and>
   secretField \<notin> set (dropExcluded asciiEnv excludeTagOpts (rs_Fields (hd accountRaws))) \<and>
   BuildAll 1 asciiEnv (dropExcludedS asciiEnv excludeTagOpts noSource) [''Account''] [''Account''] [''Account'']
       (dropExcludedB asciiEnv excludeTagOpts accountBuilder)
     = erased asciiEnv excludeTagOpts
         (BuildAll 1 asciiEnv noSource [''Account''] [''Account''] [''Account''] accountBuilder) \<and>
   parseStructs asciiEnv excludeTagOpts (raws (dropExcludedB asciiEnv excludeTagOpts accountBuilder)) noModel
       (BuildAll 1 asciiEnv (dropExcludedS asciiEnv excludeTagOpts noSource) [''Account''] [''Account''] [''Account'']
          (dropExcludedB asciiEnv excludeTagOpts accountBuilder))
     = parseStructs asciiEnv excludeTagOpts (raws accountBuilder) noModel
         (BuildAll 1 asciiEnv noSource [''Account''] [''Account''] [''Account''] accountBuilder)"
proof -
  have o: "opts accountBuilder = excludeTagOpts"
    by (simp add: accountBuilder_def NewBuilder_def)
  have a: "rf_TagLit secretField = Some ([CHR 0x60] @ ''json:\"secret\" dto:\"x;-\"'' @ [CHR 0x60])"
    by (simp add: secretField_def)
  have b: "\<lparr>Key = ''dto'', Value = ''-''\<rparr> \<in> set (ExcludeByTags (opts accountBuilder))"
    by (simp add: o excludeTagOpts_def)
  have c: "Lookup asciiEnv (Trim ([CHR 0x60] @ ''json:\"secret\" dto:\"x;-\"'' @ [CHR 0x60]) CHR 0x60)
             (Key \<lparr>Key = ''dto'', Value = ''-''\<rparr>) = Some ''x;-''"
    by code_simp
  have d: "Value \<lparr>Key = ''dto'', Value = ''-''\<rparr> \<in> set (Split ''x;-'' CHR '';'')"
    by code_simp
  from C3_excluded_field_dropped [OF a b c d, where rte = "resolveTypeExpr 1 asciiEnv noSource"
      and rfs = "rs_Fields (hd accountRaws)" and n = 1 and S = noSource and ?order2.0 = "[''Account'']"
      and ?order3.0 = "[''Account'']" and ?order4.0 = "[''Account'']" and wm = noModel]
  show ?thesis unfolding o .
qed

theorem account_structs:
  "map (\<lambda>s. (as_Name s, map af_Name (as_Fields s)))
     (the (parseStructs asciiEnv excludeTagOpts (raws accountBuilder) noModel
         (BuildAll 1 asciiEnv noSource [''Account''] [''Account''] [''Account''] accountBuilder)))
   = [(''Account'', [''Name'']), (''AccountPatch'', [''Name''])]"
  by code_simp

end
